theory Spec2Isabelle
  imports Main "HOL-Library.Word" "HOL-Library.Sublist"
begin

section \<open>The edge protocol parser (RLP_V2) of the Diode client\<close>

text \<open>
  A shallow embedding of the Go file that holds \<^verbatim>\<open>RLP_V2\<close>: the method dispatcher
  \<^verbatim>\<open>parseResponse\<close>, the response parsers, the inbound request parsers,
  \<^verbatim>\<open>parseError\<close>, \<^verbatim>\<open>ResponseID\<close> and the request builder \<^verbatim>\<open>NewMessage\<close>.

  A Go byte slice is a list of 8-bit characters (\<^typ>\<open>char\<close> is exactly one byte), so
  that the pivots read as they do in the source. A \<^verbatim>\<open>uint64\<close> is a \<^typ>\<open>64 word\<close>.
  A Go result pair \<^verbatim>\<open>(value, error)\<close> is a sum: \<open>Inl\<close> the error, \<open>Inr\<close> the value.
\<close>

type_synonym bytes = "char list"

subsection \<open>bytes.Contains and bytes.Equal\<close>

text \<open>\<^verbatim>\<open>bytes.Contains(b, subslice)\<close>: whether \<open>subslice\<close> occurs in \<open>b\<close> as a
  contiguous run (the empty slice occurs in every slice).\<close>

fun Contains :: "bytes \<Rightarrow> bytes \<Rightarrow> bool" where
  "Contains [] subslice = (subslice = [])"
| "Contains (b # bs) subslice = (prefix subslice (b # bs) \<or> Contains bs subslice)"

subsection \<open>The pivots\<close>

definition responsePivot :: bytes where "responsePivot = ''response''"
definition errorPivot :: bytes where "errorPivot = ''error''"
definition ticketTooOldPivot :: bytes where "ticketTooOldPivot = ''too_old''"
definition ticketTooLowPivot :: bytes where "ticketTooLowPivot = ''too_low''"
definition ticketThanksPivot :: bytes where "ticketThanksPivot = ''thanks!''"
definition portOpenPivot :: bytes where "portOpenPivot = ''portopen''"
definition portSendPivot :: bytes where "portSendPivot = ''portsend''"
definition portClosePivot :: bytes where "portClosePivot = ''portclose''"
definition goodbyePivot :: bytes where "goodbyePivot = ''goodbye''"
definition blockPivot :: bytes where "blockPivot = ''getblock''"
definition block2Pivot :: bytes where "block2Pivot = ''getblock2''"
definition blockHeaderPivot :: bytes where "blockHeaderPivot = ''getblockheader''"
definition blockHeader2Pivot :: bytes where "blockHeader2Pivot = ''getblockheader2''"
definition blockquickPivot :: bytes where "blockquickPivot = ''getblockquick''"
definition blockquick2Pivot :: bytes where "blockquick2Pivot = ''getblockquick2''"
definition blockPeakPivot :: bytes where "blockPeakPivot = ''getblockpeak''"
definition accountRootsPivot :: bytes where "accountRootsPivot = ''getaccountroots''"
definition accountValuePivot :: bytes where "accountValuePivot = ''getaccountvalue''"
definition accountPivot :: bytes where "accountPivot = ''getaccount''"
definition stateRootsPivot :: bytes where "stateRootsPivot = ''getstateroots''"
definition objectPivot :: bytes where "objectPivot = ''getobject''"
definition nodePivot :: bytes where "nodePivot = ''getnode''"
definition ticketPivot :: bytes where "ticketPivot = ''getticket''"
definition helloPivot :: bytes where "helloPivot = ''hello''"
definition okPivot :: bytes where "okPivot = ''ok''"

lemmas pivot_defs =
  responsePivot_def errorPivot_def ticketTooOldPivot_def ticketTooLowPivot_def
  ticketThanksPivot_def portOpenPivot_def portSendPivot_def portClosePivot_def
  goodbyePivot_def blockPivot_def block2Pivot_def blockHeaderPivot_def
  blockHeader2Pivot_def blockquickPivot_def blockquick2Pivot_def blockPeakPivot_def
  accountRootsPivot_def accountValuePivot_def accountPivot_def stateRootsPivot_def
  objectPivot_def nodePivot_def ticketPivot_def helloPivot_def okPivot_def

subsection \<open>Errors and panics\<close>

text \<open>The error values of the package. \<open>BlockhashNotRealHash\<close> is the
  \<^verbatim>\<open>fmt.Errorf("Blockhash != real hash ...")\<close> of the header parser, carrying the
  block hash the server supplied. \<open>ForeignError\<close> is an error returned by a
  function of another package (the rlp decoder and encoder, the header
  constructor, the Merkle tree parser).\<close>

datatype error =
    errWrongTypeForItems
  | errKeyNotFoundInItems
  | ErrFailedToParseTicket
  | ErrResponseHandlerNotFound
  | ErrRPCNotSupport
  | ErrTicketTooLow
  | ErrTicketTooOld
  | BlockhashNotRealHash bytes
  | ForeignError string

text \<open>A run-time panic of Go (an index out of range, a failed type assertion) is
  not an error value: the call does not return.\<close>

datatype panic = IndexOutOfRange | InterfaceConversion

subsection \<open>The records the parsers build\<close>

record DeviceTicket =
  ServerID :: bytes
  BlockNumber :: int
  BlockHash :: bytes
  FleetAddr :: bytes
  TotalConnections :: "64 word"
  TotalBytes :: "64 word"
  DeviceSig :: bytes
  ServerSig :: bytes
  LocalAddr :: bytes
  Err :: "error option"

text \<open>\<^verbatim>\<open>DeviceTicket{}\<close>, the zero value: the two \<^verbatim>\<open>[20]byte\<close> arrays hold twenty
  zero bytes, the slices are nil, the counters are 0 and \<^verbatim>\<open>Err\<close> is nil.\<close>

definition zeroAddr :: bytes where
  "zeroAddr = replicate 20 (CHR 0x00)"

definition DeviceTicket_zero :: DeviceTicket where
  "DeviceTicket_zero =
     \<lparr>ServerID = zeroAddr, BlockNumber = 0, BlockHash = [], FleetAddr = zeroAddr,
      TotalConnections = 0, TotalBytes = 0, DeviceSig = [], ServerSig = [],
      LocalAddr = [], Err = None\<rparr>"

text \<open>\<^verbatim>\<open>a := [20]byte{}; copy(a[:], src)\<close>: the first twenty bytes of \<open>src\<close>, padded
  with zero bytes.\<close>

definition copy20 :: "bytes \<Rightarrow> bytes" where
  "copy20 src = take 20 src @ replicate (20 - length src) (CHR 0x00)"

record PortOpen =
  po_Port :: "64 word"
  po_Ref :: "64 word"
  po_RawDeviceID :: bytes
  po_DeviceID :: string
  po_Ok :: bool

record PortSend =
  ps_Ref :: "64 word"
  ps_Data :: bytes
  ps_Ok :: bool

record PortClose =
  pc_Ref :: "64 word"
  pc_Ok :: bool

record ServerObj =
  so_Host :: bytes
  so_EdgePort :: "64 word"
  so_ServerPort :: "64 word"
  so_Sig :: bytes

record ('proof, 'leaf) MerkleTree =
  RawTree :: 'proof
  RootHash :: bytes
  Module :: "64 word"
  Leaves :: "'leaf list"

record ('proof, 'leaf) Account =
  StorageRoot :: bytes
  Nonce :: "64 word"
  Code :: bytes
  Balance :: "64 word"
  stateTree :: "('proof, 'leaf) MerkleTree"

record Item =
  Key :: bytes
  Value :: bytes

record Error =
  Message :: string


subsection \<open>The decoded structs\<close>

text \<open>The struct types the rlp decoder fills are declared in another file of the
  package. Each is given here with the fields that the parsers read, under the
  field's own name after a short prefix for the struct (\<^verbatim>\<open>response.Payload.Ref\<close> of a
  \<^verbatim>\<open>portOpenResponse\<close> is \<open>por_Ref\<close>). A struct (or part of one) that is passed on
  whole, without a field of it being read, is a type variable: \<open>'blk\<close> the block
  response, \<open>'items\<close> the item list of a payload, \<open>'hdr\<close> the block header of
  package blockquick, \<open>'proof\<close> the raw Merkle proof, \<open>'leaf\<close> a Merkle tree
  leaf, \<open>'thanks\<close> and \<open>'old\<close> the ticket replies of which no field is read.\<close>

record portOpenResponse =
  por_Result :: string
  por_Ref :: "64 word"

record 'items blockHeaderResponse =
  bh_Items :: 'items
  bh_MinerPubkey :: bytes

record 'items blockquickResponse =
  bq_Items :: 'items

record blockPeakResponse =
  bp_BlockNumber :: "64 word"

record ticketTooLowResponse =
  tl_BlockHash :: bytes
  tl_TotalConnections :: "64 word"
  tl_TotalBytes :: "64 word"
  tl_LocalAddr :: bytes
  tl_DeviceSig :: bytes

record objectResponse =
  ob_ServerID :: bytes
  ob_PeakBlock :: "64 word"
  ob_FleetAddr :: bytes
  ob_TotalConnections :: "64 word"
  ob_TotalBytes :: "64 word"
  ob_DeviceSig :: bytes
  ob_ServerSig :: bytes
  ob_LocalAddr :: bytes

record ('items, 'proof) accountResponse =
  ac_Items :: 'items
  ac_MerkleProof :: 'proof

record accountRootsResponse =
  ar_AccountRoots :: "bytes list"

record 'proof accountValueResponse =
  av_MerkleProof :: 'proof

record serverObjectResponse =
  sv_Host :: bytes
  sv_EdgePort :: "64 word"
  sv_ServerPort :: "64 word"
  sv_ServerSig :: bytes

record stateRootsResponse =
  sr_StateRoots :: "bytes list"

record portOpenInboundRequest =
  poi_DeviceID :: bytes
  poi_Port :: "64 word"
  poi_Ref :: "64 word"

record portSendInboundRequest =
  psi_Ref :: "64 word"
  psi_Data :: bytes

record portCloseInboundRequest =
  pci_Ref :: "64 word"

record goodbyeInboundRequest =
  gb_Reason :: string

record errorResponse =
  er_Payload :: "string list"

record responseID =
  RequestID :: "64 word"

text \<open>The zero values that \<^verbatim>\<open>var response errorResponse\<close> and
  \<^verbatim>\<open>var response responseID\<close> declare.\<close>

definition errorResponse_zero :: errorResponse where
  "errorResponse_zero = \<lparr>er_Payload = []\<rparr>"

definition responseID_zero :: responseID where
  "responseID_zero = \<lparr>RequestID = 0\<rparr>"

subsection \<open>Requests and arguments of NewMessage\<close>

text \<open>The request structs that \<^verbatim>\<open>NewMessage\<close> and \<^verbatim>\<open>NewResponseMessage\<close> fill,
  one constructor for each struct type; the arguments are the request id, then
  the payload fields in the order the source assigns them.\<close>

datatype request =
    helloRequest "64 word" string "64 word"
  | portSendRequest "64 word" string "64 word" bytes
  | portCloseRequest "64 word" string "64 word"
  | blockRequest "64 word" string "64 word"
  | blockPeakRequest "64 word" string
  | blockHeaderRequest "64 word" string "64 word"
  | blockquickRequest "64 word" string "64 word" "64 word"
  | accountRequest "64 word" string "64 word" bytes
  | accountRootsRequest "64 word" string "64 word" bytes
  | accountValueRequest "64 word" string "64 word" bytes bytes
  | ticketRequest "64 word" string "64 word" bytes "64 word" "64 word" bytes bytes
  | portOpenRequest "64 word" string bytes "64 word" string
  | objectRequest "64 word" string bytes
  | serverObjectRequest "64 word" string bytes
  | stateRootsRequest "64 word" string "64 word"
  | portOpenOutboundResponse "64 word" string "64 word" string

text \<open>An argument of the variadic \<^verbatim>\<open>args ...interface{}\<close>: a \<^verbatim>\<open>uint64\<close>, a
  \<^verbatim>\<open>[]byte\<close> or a \<^verbatim>\<open>string\<close>.\<close>

datatype arg = A_uint64 "64 word" | A_bytes bytes | A_string string

text \<open>\<^verbatim>\<open>args[i].(uint64)\<close>, \<^verbatim>\<open>args[i].([]byte)\<close> and \<^verbatim>\<open>args[i].(string)\<close>: the index
  panics out of range, the type assertion panics on a value of another type.\<close>

definition uint64_at :: "arg list \<Rightarrow> nat \<Rightarrow> panic + 64 word" where
  "uint64_at args i =
     (if length args \<le> i then Inl IndexOutOfRange
      else case args ! i of A_uint64 w \<Rightarrow> Inr w | _ \<Rightarrow> Inl InterfaceConversion)"

definition bytes_at :: "arg list \<Rightarrow> nat \<Rightarrow> panic + bytes" where
  "bytes_at args i =
     (if length args \<le> i then Inl IndexOutOfRange
      else case args ! i of A_bytes b \<Rightarrow> Inr b | _ \<Rightarrow> Inl InterfaceConversion)"

definition string_at :: "arg list \<Rightarrow> nat \<Rightarrow> panic + string" where
  "string_at args i =
     (if length args \<le> i then Inl IndexOutOfRange
      else case args ! i of A_string s \<Rightarrow> Inr s | _ \<Rightarrow> Inl InterfaceConversion)"

text \<open>Statements run in sequence until the first panic.\<close>

definition and_then :: "panic + 'a \<Rightarrow> ('a \<Rightarrow> panic + 'b) \<Rightarrow> panic + 'b" where
  "and_then m f = (case m of Inl p \<Rightarrow> Inl p | Inr x \<Rightarrow> f x)"

subsection \<open>The functions of other packages\<close>

text \<open>
  The parsers call functions that are not in these sources: the rlp decoder
  (\<^verbatim>\<open>rlp.NewStream(...).Decode(&response)\<close>) and encoder (\<^verbatim>\<open>rlp.EncodeToBytes\<close>),
  \<^verbatim>\<open>findItemInItems\<close>, \<^verbatim>\<open>secp256k1.DecompressPubkeyBytes\<close>, \<^verbatim>\<open>blockquick.NewHeader\<close>
  and the header's \<^verbatim>\<open>Hash\<close>, \<^verbatim>\<open>util.DecodeBytesToUint\<close>, \<^verbatim>\<open>util.DecodeBytesToInt\<close> and
  the Merkle tree's \<^verbatim>\<open>parse\<close>. They are parameters of the model, collected in one
  record, and every theorem holds for all of them.

  The rlp \<^verbatim>\<open>Decode\<close> is one function for each struct type it is called at. A
  parser that returns at once when \<^verbatim>\<open>Decode\<close> fails reads the struct only after a
  success, so there the decoder yields either the error or the struct.
  \<^verbatim>\<open>parseError\<close> and \<^verbatim>\<open>ResponseID\<close> drop the error and read the struct whatever
  happened: \<^verbatim>\<open>Decode\<close> writes through the pointer \<^verbatim>\<open>&response\<close>, so their decoders
  take the struct as declared and return the struct as \<^verbatim>\<open>Decode\<close> left it, with
  the error or nil. What a failed \<^verbatim>\<open>Decode\<close> has stored before it failed stays
  in the struct.

  \<^verbatim>\<open>findItemInItems\<close> returns an item and an error; the source reads the item
  and drops the error, so its model returns both.
\<close>

record ('blk, 'items, 'hdr, 'proof, 'leaf, 'thanks, 'old) foreign =
  Decode_portOpenResponse :: "bytes \<Rightarrow> error + portOpenResponse"
  Decode_blockResponse :: "bytes \<Rightarrow> error + 'blk"
  Decode_blockHeaderResponse :: "bytes \<Rightarrow> error + 'items blockHeaderResponse"
  Decode_blockquickResponse :: "bytes \<Rightarrow> error + 'items blockquickResponse"
  Decode_blockPeakResponse :: "bytes \<Rightarrow> error + blockPeakResponse"
  Decode_ticketThanksResponse :: "bytes \<Rightarrow> error + 'thanks"
  Decode_ticketTooLowResponse :: "bytes \<Rightarrow> error + ticketTooLowResponse"
  Decode_ticketTooOldResponse :: "bytes \<Rightarrow> error + 'old"
  Decode_objectResponse :: "bytes \<Rightarrow> error + objectResponse"
  Decode_accountResponse :: "bytes \<Rightarrow> error + ('items, 'proof) accountResponse"
  Decode_accountRootsResponse :: "bytes \<Rightarrow> error + accountRootsResponse"
  Decode_accountValueResponse :: "bytes \<Rightarrow> error + 'proof accountValueResponse"
  Decode_serverObjectResponse :: "bytes \<Rightarrow> error + serverObjectResponse"
  Decode_stateRootsResponse :: "bytes \<Rightarrow> error + stateRootsResponse"
  Decode_portOpenInboundRequest :: "bytes \<Rightarrow> error + portOpenInboundRequest"
  Decode_portSendInboundRequest :: "bytes \<Rightarrow> error + portSendInboundRequest"
  Decode_portCloseInboundRequest :: "bytes \<Rightarrow> error + portCloseInboundRequest"
  Decode_goodbyeInboundRequest :: "bytes \<Rightarrow> error + goodbyeInboundRequest"
  Decode_errorResponse :: "bytes \<Rightarrow> errorResponse \<Rightarrow> errorResponse \<times> error option"
  Decode_responseID :: "bytes \<Rightarrow> responseID \<Rightarrow> responseID \<times> error option"
  EncodeToBytes :: "request \<Rightarrow> error + bytes"
  findItemInItems :: "'items \<Rightarrow> string \<Rightarrow> Item \<times> error option"
  DecompressPubkeyBytes :: "bytes \<Rightarrow> bytes"
  NewHeader :: "bytes \<Rightarrow> bytes \<Rightarrow> bytes \<Rightarrow> bytes \<Rightarrow> bytes
                 \<Rightarrow> 64 word \<Rightarrow> 64 word \<Rightarrow> 64 word \<Rightarrow> error + 'hdr"
  Hash :: "'hdr \<Rightarrow> bytes"
  DecodeBytesToUint :: "bytes \<Rightarrow> 64 word"
  DecodeBytesToInt :: "bytes \<Rightarrow> 64 word"
  mt_parse :: "'proof \<Rightarrow> error + (bytes \<times> 64 word \<times> 'leaf list)"

subsection \<open>What a parser returns\<close>

text \<open>The \<^verbatim>\<open>interface{}\<close> a parser returns holds a value of one of these types
  (\<open>V_DeviceTicket\<close> is the struct that the ticket parser returns,
  \<open>V_DeviceTicketPtr\<close> the pointer that the object parser returns).\<close>

datatype ('blk, 'items, 'hdr, 'proof, 'leaf) val =
    V_PortOpen PortOpen
  | V_blockResponse 'blk
  | V_Header 'hdr
  | V_Items 'items
  | V_uint64 "64 word"
  | V_DeviceTicket DeviceTicket
  | V_DeviceTicketPtr DeviceTicket
  | V_Account "('proof, 'leaf) Account"
  | V_AccountRoots "bytes list"
  | V_AccountValue "('proof, 'leaf) MerkleTree"
  | V_StateRoots "bytes list"
  | V_ServerObj ServerObj
  | V_PortSend PortSend
  | V_PortClose PortClose
  | V_Goodbye string


subsection \<open>The response parsers\<close>

definition parseBlockPeakResponse ::
  "('blk, 'items, 'hdr, 'proof, 'leaf, 'thanks, 'old) foreign \<Rightarrow> bytes
     \<Rightarrow> error + ('blk, 'items, 'hdr, 'proof, 'leaf) val" where
  "parseBlockPeakResponse F buffer =
     (case Decode_blockPeakResponse F buffer of
        Inl err \<Rightarrow> Inl err
      | Inr response \<Rightarrow> Inr (V_uint64 (bp_BlockNumber response)))"

definition parseBlockResponse ::
  "('blk, 'items, 'hdr, 'proof, 'leaf, 'thanks, 'old) foreign \<Rightarrow> bytes
     \<Rightarrow> error + ('blk, 'items, 'hdr, 'proof, 'leaf) val" where
  "parseBlockResponse F buffer =
     (case Decode_blockResponse F buffer of
        Inl err \<Rightarrow> Inl err
      | Inr response \<Rightarrow> Inr (V_blockResponse response))"

text \<open>The header parser drops the error of every \<^verbatim>\<open>findItemInItems\<close> call and
  reads the item. \<^verbatim>\<open>bytes.Equal(hash[:], blockHash.Value)\<close> is equality of the two
  byte lists.\<close>

definition parseBlockHeaderResponse ::
  "('blk, 'items, 'hdr, 'proof, 'leaf, 'thanks, 'old) foreign \<Rightarrow> bytes
     \<Rightarrow> error + ('blk, 'items, 'hdr, 'proof, 'leaf) val" where
  "parseBlockHeaderResponse F buffer =
     (case Decode_blockHeaderResponse F buffer of
        Inl err \<Rightarrow> Inl err
      | Inr response \<Rightarrow>
          (let txHash = fst (findItemInItems F (bh_Items response) ''transaction_hash'');
               stateHash = fst (findItemInItems F (bh_Items response) ''state_hash'');
               blockHash = fst (findItemInItems F (bh_Items response) ''block_hash'');
               prevBlock = fst (findItemInItems F (bh_Items response) ''previous_block'');
               nonce = fst (findItemInItems F (bh_Items response) ''nonce'');
               minerSig = fst (findItemInItems F (bh_Items response) ''miner_signature'');
               timestamp = fst (findItemInItems F (bh_Items response) ''timestamp'');
               number = fst (findItemInItems F (bh_Items response) ''number'');
               dminerPubkey = DecompressPubkeyBytes F (bh_MinerPubkey response)
           in case NewHeader F (Value txHash) (Value stateHash) (Value prevBlock)
                     (Value minerSig) dminerPubkey
                     (DecodeBytesToUint F (Value timestamp))
                     (DecodeBytesToUint F (Value number))
                     (DecodeBytesToUint F (Value nonce)) of
                Inl err \<Rightarrow> Inl err
              | Inr header \<Rightarrow>
                  if Hash F header \<noteq> Value blockHash
                  then Inl (BlockhashNotRealHash (Value blockHash))
                  else Inr (V_Header header)))"

definition parseBlockquickResponse ::
  "('blk, 'items, 'hdr, 'proof, 'leaf, 'thanks, 'old) foreign \<Rightarrow> bytes
     \<Rightarrow> error + ('blk, 'items, 'hdr, 'proof, 'leaf) val" where
  "parseBlockquickResponse F buffer =
     (case Decode_blockquickResponse F buffer of
        Inl err \<Rightarrow> Inl err
      | Inr response \<Rightarrow> Inr (V_Items (bq_Items response)))"

definition parseDeviceTicketResponse ::
  "('blk, 'items, 'hdr, 'proof, 'leaf, 'thanks, 'old) foreign \<Rightarrow> bytes
     \<Rightarrow> error + ('blk, 'items, 'hdr, 'proof, 'leaf) val" where
  "parseDeviceTicketResponse F buffer =
     (if Contains buffer ticketThanksPivot then
        (case Decode_ticketThanksResponse F buffer of
           Inl err \<Rightarrow> Inl err
         | Inr response \<Rightarrow> Inr (V_DeviceTicket DeviceTicket_zero))
      else if Contains buffer ticketTooLowPivot then
        (case Decode_ticketTooLowResponse F buffer of
           Inl err \<Rightarrow> Inl err
         | Inr response \<Rightarrow>
             Inr (V_DeviceTicket (DeviceTicket_zero
               \<lparr>BlockHash := tl_BlockHash response,
                TotalConnections := tl_TotalConnections response,
                TotalBytes := tl_TotalBytes response,
                LocalAddr := tl_LocalAddr response,
                DeviceSig := tl_DeviceSig response,
                Err := Some ErrTicketTooLow\<rparr>)))
      else if Contains buffer ticketTooOldPivot then
        (case Decode_ticketTooOldResponse F buffer of
           Inl err \<Rightarrow> Inl err
         | Inr response \<Rightarrow>
             Inr (V_DeviceTicket (DeviceTicket_zero \<lparr>Err := Some ErrTicketTooOld\<rparr>)))
      else Inl ErrFailedToParseTicket)"

text \<open>\<^verbatim>\<open>int(response.Payload.Ticket.PeakBlock)\<close> reads the 64 bits as a signed
  number.\<close>

definition parseDeviceObjectResponse ::
  "('blk, 'items, 'hdr, 'proof, 'leaf, 'thanks, 'old) foreign \<Rightarrow> bytes
     \<Rightarrow> error + ('blk, 'items, 'hdr, 'proof, 'leaf) val" where
  "parseDeviceObjectResponse F buffer =
     (case Decode_objectResponse F buffer of
        Inl err \<Rightarrow> Inl err
      | Inr response \<Rightarrow>
          (let serverID = copy20 (ob_ServerID response);
               fleetAddr = copy20 (ob_FleetAddr response)
           in Inr (V_DeviceTicketPtr
                \<lparr>ServerID = serverID,
                 BlockNumber = sint (ob_PeakBlock response),
                 BlockHash = [],
                 FleetAddr = fleetAddr,
                 TotalConnections = ob_TotalConnections response,
                 TotalBytes = ob_TotalBytes response,
                 DeviceSig = ob_DeviceSig response,
                 ServerSig = ob_ServerSig response,
                 LocalAddr = ob_LocalAddr response,
                 Err = None\<rparr>)))"

text \<open>\<^verbatim>\<open>NewMerkleTree\<close> has named results: when \<^verbatim>\<open>parse\<close> fails it returns the tree
  with only the raw proof set, together with the error.\<close>

definition NewMerkleTree ::
  "('blk, 'items, 'hdr, 'proof, 'leaf, 'thanks, 'old) foreign \<Rightarrow> 'proof
     \<Rightarrow> ('proof, 'leaf) MerkleTree \<times> error option" where
  "NewMerkleTree F rawTree =
     (let mt = \<lparr>RawTree = rawTree, RootHash = [], Module = 0, Leaves = []\<rparr>
      in case mt_parse F rawTree of
           Inl err \<Rightarrow> (mt, Some err)
         | Inr (rootHash, module, leaves) \<Rightarrow>
             (mt\<lparr>RootHash := rootHash, Module := module, Leaves := leaves\<rparr>, None))"

definition parseAccountResponse ::
  "('blk, 'items, 'hdr, 'proof, 'leaf, 'thanks, 'old) foreign \<Rightarrow> bytes
     \<Rightarrow> error + ('blk, 'items, 'hdr, 'proof, 'leaf) val" where
  "parseAccountResponse F buffer =
     (case Decode_accountResponse F buffer of
        Inl err \<Rightarrow> Inl err
      | Inr response \<Rightarrow>
          (let storageRoot = fst (findItemInItems F (ac_Items response) ''storageRoot'');
               nonce = fst (findItemInItems F (ac_Items response) ''nonce'');
               code = fst (findItemInItems F (ac_Items response) ''code'');
               balance = fst (findItemInItems F (ac_Items response) ''balance'');
               dnonce = DecodeBytesToInt F (Value nonce);
               dbalance = DecodeBytesToInt F (Value balance)
           in case NewMerkleTree F (ac_MerkleProof response) of
                (tree, Some err) \<Rightarrow> Inl err
              | (tree, None) \<Rightarrow>
                  Inr (V_Account
                    \<lparr>StorageRoot = Value storageRoot, Nonce = dnonce,
                     Code = Value code, Balance = dbalance,
                     stateTree = tree\<rparr>)))"

definition parseAccountRootsResponse ::
  "('blk, 'items, 'hdr, 'proof, 'leaf, 'thanks, 'old) foreign \<Rightarrow> bytes
     \<Rightarrow> error + ('blk, 'items, 'hdr, 'proof, 'leaf) val" where
  "parseAccountRootsResponse F buffer =
     (case Decode_accountRootsResponse F buffer of
        Inl err \<Rightarrow> Inl err
      | Inr response \<Rightarrow> Inr (V_AccountRoots (ar_AccountRoots response)))"

definition parseAccountValueResponse ::
  "('blk, 'items, 'hdr, 'proof, 'leaf, 'thanks, 'old) foreign \<Rightarrow> bytes
     \<Rightarrow> error + ('blk, 'items, 'hdr, 'proof, 'leaf) val" where
  "parseAccountValueResponse F buffer =
     (case Decode_accountValueResponse F buffer of
        Inl err \<Rightarrow> Inl err
      | Inr response \<Rightarrow>
          (case NewMerkleTree F (av_MerkleProof response) of
             (accountTree, Some err) \<Rightarrow> Inl err
           | (accountTree, None) \<Rightarrow> Inr (V_AccountValue accountTree)))"

text \<open>A \<^verbatim>\<open>PortOpen\<close> built from a response sets \<^verbatim>\<open>Ok\<close> and \<^verbatim>\<open>Ref\<close>; the other fields
  keep their zero values.\<close>

definition parsePortOpenResponse ::
  "('blk, 'items, 'hdr, 'proof, 'leaf, 'thanks, 'old) foreign \<Rightarrow> bytes
     \<Rightarrow> error + ('blk, 'items, 'hdr, 'proof, 'leaf) val" where
  "parsePortOpenResponse F buffer =
     (case Decode_portOpenResponse F buffer of
        Inl err \<Rightarrow> Inl err
      | Inr response \<Rightarrow>
          Inr (V_PortOpen
            \<lparr>po_Port = 0, po_Ref = por_Ref response, po_RawDeviceID = [],
             po_DeviceID = [], po_Ok = (por_Result response = ''ok'')\<rparr>))"

definition parseServerObjResponse ::
  "('blk, 'items, 'hdr, 'proof, 'leaf, 'thanks, 'old) foreign \<Rightarrow> bytes
     \<Rightarrow> error + ('blk, 'items, 'hdr, 'proof, 'leaf) val" where
  "parseServerObjResponse F buffer =
     (case Decode_serverObjectResponse F buffer of
        Inl err \<Rightarrow> Inl err
      | Inr response \<Rightarrow>
          Inr (V_ServerObj
            \<lparr>so_Host = sv_Host response, so_EdgePort = sv_EdgePort response,
             so_ServerPort = sv_ServerPort response, so_Sig = sv_ServerSig response\<rparr>))"

definition parseStateRootsResponse ::
  "('blk, 'items, 'hdr, 'proof, 'leaf, 'thanks, 'old) foreign \<Rightarrow> bytes
     \<Rightarrow> error + ('blk, 'items, 'hdr, 'proof, 'leaf) val" where
  "parseStateRootsResponse F buffer =
     (case Decode_stateRootsResponse F buffer of
        Inl err \<Rightarrow> Inl err
      | Inr response \<Rightarrow> Inr (V_StateRoots (sr_StateRoots response)))"

subsection \<open>The dispatcher of responses\<close>

definition parseResponse ::
  "('blk, 'items, 'hdr, 'proof, 'leaf, 'thanks, 'old) foreign \<Rightarrow> bytes
     \<Rightarrow> error + ('blk, 'items, 'hdr, 'proof, 'leaf) val" where
  "parseResponse F buffer =
     (if Contains buffer portOpenPivot then parsePortOpenResponse F buffer
      else if Contains buffer blockPivot then parseBlockResponse F buffer
      else if Contains buffer block2Pivot then parseBlockResponse F buffer
      else if Contains buffer blockHeaderPivot then parseBlockHeaderResponse F buffer
      else if Contains buffer blockHeader2Pivot then parseBlockHeaderResponse F buffer
      else if Contains buffer blockquickPivot then parseBlockquickResponse F buffer
      else if Contains buffer blockquick2Pivot then parseBlockquickResponse F buffer
      else if Contains buffer blockPeakPivot then parseBlockPeakResponse F buffer
      else if Contains buffer accountPivot then parseAccountResponse F buffer
      else if Contains buffer accountValuePivot then parseAccountValueResponse F buffer
      else if Contains buffer accountRootsPivot then parseAccountRootsResponse F buffer
      else if Contains buffer stateRootsPivot then parseStateRootsResponse F buffer
      else if Contains buffer objectPivot then parseDeviceObjectResponse F buffer
      else if Contains buffer nodePivot then parseServerObjResponse F buffer
      else if Contains buffer ticketPivot then parseDeviceTicketResponse F buffer
      else Inl ErrResponseHandlerNotFound)"


subsection \<open>The parsers of inbound requests\<close>

text \<open>\<^verbatim>\<open>EncodeToString\<close>: the two characters \<^verbatim>\<open>0x\<close>, then two lower-case hexadecimal
  digits for each byte (\<^verbatim>\<open>"0x" + hex.EncodeToString(src)\<close>).\<close>

definition hexdigit :: "nat \<Rightarrow> char" where
  "hexdigit n = ''0123456789abcdef'' ! n"

definition EncodeToString :: "bytes \<Rightarrow> string" where
  "EncodeToString src =
     ''0x'' @ concat (map (\<lambda>c. [hexdigit (of_char c div 16), hexdigit (of_char c mod 16)]) src)"

definition parseInboundPortOpenRequest ::
  "('blk, 'items, 'hdr, 'proof, 'leaf, 'thanks, 'old) foreign \<Rightarrow> bytes
     \<Rightarrow> error + ('blk, 'items, 'hdr, 'proof, 'leaf) val" where
  "parseInboundPortOpenRequest F buffer =
     (case Decode_portOpenInboundRequest F buffer of
        Inl err \<Rightarrow> Inl err
      | Inr inboundRequest \<Rightarrow>
          (let deviceID = EncodeToString (poi_DeviceID inboundRequest)
           in Inr (V_PortOpen
                \<lparr>po_Port = poi_Port inboundRequest, po_Ref = poi_Ref inboundRequest,
                 po_RawDeviceID = poi_DeviceID inboundRequest,
                 po_DeviceID = deviceID, po_Ok = True\<rparr>)))"

definition parseInboundPortSendRequest ::
  "('blk, 'items, 'hdr, 'proof, 'leaf, 'thanks, 'old) foreign \<Rightarrow> bytes
     \<Rightarrow> error + ('blk, 'items, 'hdr, 'proof, 'leaf) val" where
  "parseInboundPortSendRequest F buffer =
     (case Decode_portSendInboundRequest F buffer of
        Inl err \<Rightarrow> Inl err
      | Inr inboundRequest \<Rightarrow>
          Inr (V_PortSend
            \<lparr>ps_Ref = psi_Ref inboundRequest, ps_Data = psi_Data inboundRequest,
             ps_Ok = True\<rparr>))"

definition parseInboundPortCloseRequest ::
  "('blk, 'items, 'hdr, 'proof, 'leaf, 'thanks, 'old) foreign \<Rightarrow> bytes
     \<Rightarrow> error + ('blk, 'items, 'hdr, 'proof, 'leaf) val" where
  "parseInboundPortCloseRequest F buffer =
     (case Decode_portCloseInboundRequest F buffer of
        Inl err \<Rightarrow> Inl err
      | Inr inboundRequest \<Rightarrow>
          Inr (V_PortClose \<lparr>pc_Ref = pci_Ref inboundRequest, pc_Ok = True\<rparr>))"

definition parseInboundGoodbyeRequest ::
  "('blk, 'items, 'hdr, 'proof, 'leaf, 'thanks, 'old) foreign \<Rightarrow> bytes
     \<Rightarrow> error + ('blk, 'items, 'hdr, 'proof, 'leaf) val" where
  "parseInboundGoodbyeRequest F buffer =
     (case Decode_goodbyeInboundRequest F buffer of
        Inl err \<Rightarrow> Inl err
      | Inr inboundRequest \<Rightarrow> Inr (V_Goodbye (gb_Reason inboundRequest)))"

text \<open>\<^verbatim>\<open>parseInboundRequest\<close> has the named results \<^verbatim>\<open>(req interface{}, err error)\<close>
  and ends in a bare \<^verbatim>\<open>return\<close>, which returns both as nil: \<open>Inr None\<close>, neither
  a request nor an error. A branch passes on what its parser returns.\<close>

definition passed_on :: "error + 'a \<Rightarrow> error + 'a option" where
  "passed_on r = (case r of Inl err \<Rightarrow> Inl err | Inr req \<Rightarrow> Inr (Some req))"

definition parseInboundRequest ::
  "('blk, 'items, 'hdr, 'proof, 'leaf, 'thanks, 'old) foreign \<Rightarrow> bytes
     \<Rightarrow> error + ('blk, 'items, 'hdr, 'proof, 'leaf) val option" where
  "parseInboundRequest F buffer =
     (if Contains buffer portOpenPivot then passed_on (parseInboundPortOpenRequest F buffer)
      else if Contains buffer portSendPivot then passed_on (parseInboundPortSendRequest F buffer)
      else if Contains buffer portClosePivot then passed_on (parseInboundPortCloseRequest F buffer)
      else if Contains buffer goodbyePivot then passed_on (parseInboundGoodbyeRequest F buffer)
      else Inr None)"

definition IsResponseType :: "bytes \<Rightarrow> bool" where
  "IsResponseType rawData = Contains rawData responsePivot"

definition IsErrorType :: "bytes \<Rightarrow> bool" where
  "IsErrorType rawData = Contains rawData errorPivot"

subsection \<open>parseError and ResponseID\<close>

text \<open>Both declare the struct (its zero value), call \<^verbatim>\<open>Decode\<close> on a pointer to it
  and drop the error that \<^verbatim>\<open>Decode\<close> returns; what they read afterwards is the
  struct as \<^verbatim>\<open>Decode\<close> left it. \<^verbatim>\<open>parseError\<close> returns the pair of an \<^verbatim>\<open>Error\<close> and a
  nil error, unless the index \<^verbatim>\<open>len(response.Payload)-1\<close> is out of range, which
  panics.\<close>

definition parseError ::
  "('blk, 'items, 'hdr, 'proof, 'leaf, 'thanks, 'old) foreign \<Rightarrow> bytes
     \<Rightarrow> panic + (Error \<times> error option)" where
  "parseError F buffer =
     (let response = fst (Decode_errorResponse F buffer errorResponse_zero)
      in if er_Payload response = [] then Inl IndexOutOfRange
         else Inr (\<lparr>Message = er_Payload response ! (length (er_Payload response) - 1)\<rparr>,
                   None))"

definition ResponseID ::
  "('blk, 'items, 'hdr, 'proof, 'leaf, 'thanks, 'old) foreign \<Rightarrow> bytes \<Rightarrow> 64 word" where
  "ResponseID F buffer =
     (let response = fst (Decode_responseID F buffer responseID_zero)
      in RequestID response)"

subsection \<open>NewMessage and NewResponseMessage\<close>

text \<open>The three results \<^verbatim>\<open>([]byte, func(buffer []byte) (interface{}, error), error)\<close>:
  either the error, or the encoded bytes with the parser of the response (nil for
  a method whose response no parser reads). A failed type assertion on an
  argument panics before anything is encoded.\<close>

type_synonym ('blk, 'items, 'hdr, 'proof, 'leaf) parser =
  "bytes \<Rightarrow> error + ('blk, 'items, 'hdr, 'proof, 'leaf) val"

definition encoded ::
  "('blk, 'items, 'hdr, 'proof, 'leaf, 'thanks, 'old) foreign \<Rightarrow> request
     \<Rightarrow> ('blk, 'items, 'hdr, 'proof, 'leaf) parser option
     \<Rightarrow> panic + (error + bytes \<times> ('blk, 'items, 'hdr, 'proof, 'leaf) parser option)" where
  "encoded F request parser =
     Inr (case EncodeToBytes F request of
            Inl err \<Rightarrow> Inl err
          | Inr decodedRlp \<Rightarrow> Inr (decodedRlp, parser))"

definition NewMessage ::
  "('blk, 'items, 'hdr, 'proof, 'leaf, 'thanks, 'old) foreign \<Rightarrow> 64 word \<Rightarrow> string
     \<Rightarrow> arg list
     \<Rightarrow> panic + (error + bytes \<times> ('blk, 'items, 'hdr, 'proof, 'leaf) parser option)" where
  "NewMessage F requestID method args =
     (if method = ''hello'' then
        and_then (uint64_at args 0) (\<lambda>flag.
        encoded F (helloRequest requestID method flag) None)
      else if method = ''portsend'' then
        and_then (uint64_at args 0) (\<lambda>ref.
        and_then (bytes_at args 1) (\<lambda>data.
        encoded F (portSendRequest requestID method ref data) None))
      else if method = ''portclose'' then
        and_then (uint64_at args 0) (\<lambda>ref.
        encoded F (portCloseRequest requestID method ref) None)
      else if method = ''getblock'' then
        and_then (uint64_at args 0) (\<lambda>blockNumber.
        encoded F (blockRequest requestID method blockNumber)
          (Some (parseBlockResponse F)))
      else if method = ''getblockpeak'' then
        encoded F (blockPeakRequest requestID method) (Some (parseBlockPeakResponse F))
      else if method = ''getblockheader2'' then
        and_then (uint64_at args 0) (\<lambda>blockNumber.
        encoded F (blockHeaderRequest requestID method blockNumber)
          (Some (parseBlockHeaderResponse F)))
      else if method = ''getblockquick2'' then
        and_then (uint64_at args 0) (\<lambda>lastValid.
        and_then (uint64_at args 1) (\<lambda>windowSize.
        encoded F (blockquickRequest requestID method lastValid windowSize)
          (Some (parseBlockquickResponse F))))
      else if method = ''getaccount'' then
        and_then (uint64_at args 0) (\<lambda>blockNumber.
        and_then (bytes_at args 1) (\<lambda>address.
        encoded F (accountRequest requestID method blockNumber address)
          (Some (parseAccountResponse F))))
      else if method = ''getaccountroots'' then
        and_then (uint64_at args 0) (\<lambda>blockNumber.
        and_then (bytes_at args 1) (\<lambda>address.
        encoded F (accountRootsRequest requestID method blockNumber address)
          (Some (parseAccountRootsResponse F))))
      else if method = ''getaccountvalue'' then
        and_then (uint64_at args 0) (\<lambda>blockNumber.
        and_then (bytes_at args 1) (\<lambda>address.
        and_then (bytes_at args 2) (\<lambda>key.
        encoded F (accountValueRequest requestID method blockNumber address key)
          (Some (parseAccountValueResponse F)))))
      else if method = ''ticket'' then
        and_then (uint64_at args 0) (\<lambda>blockNumber.
        and_then (bytes_at args 1) (\<lambda>fleetAddr.
        and_then (uint64_at args 2) (\<lambda>totalConnections.
        and_then (uint64_at args 3) (\<lambda>totalBytes.
        and_then (bytes_at args 4) (\<lambda>localAddr.
        and_then (bytes_at args 5) (\<lambda>deviceSig.
        encoded F (ticketRequest requestID method blockNumber fleetAddr
                     totalConnections totalBytes localAddr deviceSig)
          (Some (parseDeviceTicketResponse F))))))))
      else if method = ''portopen'' then
        and_then (bytes_at args 0) (\<lambda>deviceID.
        and_then (uint64_at args 1) (\<lambda>port.
        and_then (string_at args 2) (\<lambda>mode.
        encoded F (portOpenRequest requestID method deviceID port mode)
          (Some (parsePortOpenResponse F)))))
      else if method = ''getobject'' then
        and_then (bytes_at args 0) (\<lambda>deviceID.
        encoded F (objectRequest requestID method deviceID)
          (Some (parseDeviceObjectResponse F)))
      else if method = ''getnode'' then
        and_then (bytes_at args 0) (\<lambda>serverID.
        encoded F (serverObjectRequest requestID method serverID)
          (Some (parseServerObjResponse F)))
      else if method = ''getstateroots'' then
        and_then (uint64_at args 0) (\<lambda>blockNumber.
        encoded F (stateRootsRequest requestID method blockNumber)
          (Some (parseStateRootsResponse F)))
      else Inr (Inl ErrRPCNotSupport))"

definition NewResponseMessage ::
  "('blk, 'items, 'hdr, 'proof, 'leaf, 'thanks, 'old) foreign \<Rightarrow> 64 word \<Rightarrow> string
     \<Rightarrow> string \<Rightarrow> arg list
     \<Rightarrow> panic + (error + bytes \<times> ('blk, 'items, 'hdr, 'proof, 'leaf) parser option)" where
  "NewResponseMessage F requestID responseType method args =
     (if method = ''portopen'' then
        and_then (uint64_at args 0) (\<lambda>ref.
        and_then (string_at args 1) (\<lambda>result.
        encoded F (portOpenOutboundResponse requestID responseType ref result) None))
      else if method = ''portsend'' then
        and_then (uint64_at args 0) (\<lambda>ref.
        and_then (bytes_at args 1) (\<lambda>data.
        encoded F (portSendRequest requestID method ref data) None))
      else if method = ''portclose'' then
        and_then (uint64_at args 0) (\<lambda>ref.
        encoded F (portCloseRequest requestID method ref) None)
      else Inr (Inl ErrRPCNotSupport))"

subsection \<open>The binary codec\<close>

text \<open>
  Modelled from the spec: the rlp package (\<^verbatim>\<open>rlp.EncodeToBytes\<close> and
  \<^verbatim>\<open>rlp.NewStream(...).Decode\<close>) is not among the sources. The spec (sections 2, 3
  and 4.1) describes the codec as an untyped, length-prefixed, nested binary
  format of byte strings, unsigned integers and ordered lists, decoded into typed
  records against a shape descriptor that fixes list arity and element kind. The
  definitions of this subsection follow that description; the prefix bytes are
  those of the recursive length prefix format that the package is named after.
\<close>

text \<open>Modelled from the spec: a nested value is a byte string, an unsigned
  integer or an ordered list of nested values (section 3).\<close>

datatype nested = Bytes bytes | UInt "64 word" | List "nested list"

text \<open>Modelled from the spec: a shape descriptor gives the kind of each element
  and the arity of each list (section 4.1).\<close>

datatype shape = SBytes | SUInt | SList "shape list"

fun has_shape :: "nested \<Rightarrow> shape \<Rightarrow> bool" where
  "has_shape (Bytes bs) s = (s = SBytes)"
| "has_shape (UInt w) s = (s = SUInt)"
| "has_shape (List vs) s = (case s of SList ss \<Rightarrow> list_all2 has_shape vs ss | _ \<Rightarrow> False)"

text \<open>Modelled from the spec: an unsigned integer travels as its big-endian
  bytes without leading zero bytes (0 as the empty string).\<close>

function be_bytes :: "nat \<Rightarrow> bytes" where
  "be_bytes n = (if n = 0 then [] else be_bytes (n div 256) @ [char_of (n mod 256)])"
  by pat_completeness auto
termination
  by (relation "measure id") auto

declare be_bytes.simps [simp del]

definition be_nat :: "bytes \<Rightarrow> nat" where
  "be_nat bs = foldl (\<lambda>a c. a * 256 + of_char c) 0 bs"

text \<open>Modelled from the spec: the length prefix. A payload of up to 55 bytes has
  a one-byte prefix, \<open>offset\<close> plus the length; a longer one has the prefix byte
  \<open>offset + 55\<close> plus the number of length bytes, then the length in big-endian
  bytes. The offset is 128 for a byte string and 192 for a list. A single byte
  below 128 is its own encoding.\<close>

definition enc_length :: "nat \<Rightarrow> nat \<Rightarrow> bytes" where
  "enc_length offset n =
     (if n \<le> 55 then [char_of (offset + n)]
      else char_of (offset + 55 + length (be_bytes n)) # be_bytes n)"

definition enc_string :: "bytes \<Rightarrow> bytes" where
  "enc_string bs =
     (case bs of
        [c] \<Rightarrow> if of_char c < (128::nat) then [c] else enc_length 128 1 @ bs
      | _ \<Rightarrow> enc_length 128 (length bs) @ bs)"

text \<open>Modelled from the spec: encode(record) -> bytes (section 4.1).\<close>

fun encode :: "nested \<Rightarrow> bytes" where
  "encode (Bytes bs) = enc_string bs"
| "encode (UInt w) = enc_string (be_bytes (unat w))"
| "encode (List vs) =
     enc_length 192 (length (concat (map encode vs))) @ concat (map encode vs)"

text \<open>A value fits the wire when every byte string and every list payload in it
  is shorter than \<open>2 ^ 64\<close> bytes, so that its length has at most eight bytes; a Go
  slice is never longer.\<close>

fun wire_sized :: "nested \<Rightarrow> bool" where
  "wire_sized (Bytes bs) = (length bs < 2 ^ 64)"
| "wire_sized (UInt w) = True"
| "wire_sized (List vs) =
     (length (concat (map encode vs)) < 2 ^ 64 \<and> list_all wire_sized vs)"

text \<open>Modelled from the spec: the failures of decoding (section 4.1: malformed
  length prefixes, truncated input, kind mismatches, list arity), each with the
  path of the offending field, the element indices from the root.\<close>

datatype reason = Truncated | KindMismatch | TooFewElements | TooManyElements | TrailingBytes

datatype decode_error = DecodeError reason "nat list"

text \<open>Modelled from the spec: reading one length-prefixed item off the front of
  the input: whether it is a list, its payload, and the rest of the input.\<close>

definition payload_of :: "bool \<Rightarrow> nat \<Rightarrow> bytes \<Rightarrow> reason + (bool \<times> bytes \<times> bytes)" where
  "payload_of is_list n bs =
     (if length bs < n then Inl Truncated else Inr (is_list, take n bs, drop n bs))"

definition long_payload_of :: "bool \<Rightarrow> nat \<Rightarrow> bytes \<Rightarrow> reason + (bool \<times> bytes \<times> bytes)" where
  "long_payload_of is_list k bs =
     (if length bs < k then Inl Truncated
      else payload_of is_list (be_nat (take k bs)) (drop k bs))"

fun split_item :: "bytes \<Rightarrow> reason + (bool \<times> bytes \<times> bytes)" where
  "split_item [] = Inl Truncated"
| "split_item (c # cs) =
     (let b = (of_char c :: nat) in
      if b < 128 then Inr (False, [c], cs)
      else if b < 184 then payload_of False (b - 128) cs
      else if b < 192 then long_payload_of False (b - 183) cs
      else if b < 248 then payload_of True (b - 192) cs
      else long_payload_of True (b - 247) cs)"

text \<open>Modelled from the spec: decode(bytes) -> record (section 4.1), against a
  shape. An unsigned integer is a byte string of at most eight bytes; a list has
  exactly the elements of its shape.\<close>

fun decode_item :: "shape \<Rightarrow> nat list \<Rightarrow> bytes \<Rightarrow> decode_error + (nested \<times> bytes)"
  and decode_items :: "shape list \<Rightarrow> nat list \<Rightarrow> nat \<Rightarrow> bytes \<Rightarrow> decode_error + nested list"
where
  "decode_item SBytes path bs =
     (case split_item bs of
        Inl r \<Rightarrow> Inl (DecodeError r path)
      | Inr (is_list, payload, rest) \<Rightarrow>
          if is_list then Inl (DecodeError KindMismatch path)
          else Inr (Bytes payload, rest))"
| "decode_item SUInt path bs =
     (case split_item bs of
        Inl r \<Rightarrow> Inl (DecodeError r path)
      | Inr (is_list, payload, rest) \<Rightarrow>
          if is_list \<or> 8 < length payload then Inl (DecodeError KindMismatch path)
          else Inr (UInt (of_nat (be_nat payload)), rest))"
| "decode_item (SList ss) path bs =
     (case split_item bs of
        Inl r \<Rightarrow> Inl (DecodeError r path)
      | Inr (is_list, payload, rest) \<Rightarrow>
          if \<not> is_list then Inl (DecodeError KindMismatch path)
          else (case decode_items ss path 0 payload of
                  Inl e \<Rightarrow> Inl e
                | Inr vs \<Rightarrow> Inr (List vs, rest)))"
| "decode_items [] path i bs =
     (if bs = [] then Inr [] else Inl (DecodeError TooManyElements path))"
| "decode_items (s # ss) path i bs =
     (if bs = [] then Inl (DecodeError TooFewElements path)
      else (case decode_item s (path @ [i]) bs of
              Inl e \<Rightarrow> Inl e
            | Inr (v, rest) \<Rightarrow>
                (case decode_items ss path (Suc i) rest of
                   Inl e \<Rightarrow> Inl e
                 | Inr vs \<Rightarrow> Inr (v # vs))))"

definition decode :: "shape \<Rightarrow> bytes \<Rightarrow> decode_error + nested" where
  "decode s bs =
     (case decode_item s [] bs of
        Inl e \<Rightarrow> Inl e
      | Inr (v, rest) \<Rightarrow> if rest = [] then Inr v else Inl (DecodeError TrailingBytes []))"

text \<open>Modelled from the spec: decoding an envelope (section 3: a request id, an
  unsigned integer, then the payload, a nested value) in place into a
  \<^verbatim>\<open>responseID\<close> struct, as \<^verbatim>\<open>Decode(&response)\<close> does. The fields are stored in the
  order of the wire, each as soon as it is decoded, so a failure in the payload
  leaves the request id that was stored before it. Bytes after the envelope stay
  in the stream and are not read.\<close>

definition rlp_error :: "reason \<Rightarrow> error" where
  "rlp_error r =
     (case r of
        Truncated \<Rightarrow> ForeignError ''rlp: unexpected end of input''
      | KindMismatch \<Rightarrow> ForeignError ''rlp: kind mismatch''
      | TooFewElements \<Rightarrow> ForeignError ''rlp: too few elements''
      | TooManyElements \<Rightarrow> ForeignError ''rlp: too many elements''
      | TrailingBytes \<Rightarrow> ForeignError ''rlp: trailing bytes'')"

definition decode_responseID :: "bytes \<Rightarrow> responseID \<Rightarrow> responseID \<times> error option" where
  "decode_responseID bs response =
     (case split_item bs of
        Inl r \<Rightarrow> (response, Some (rlp_error r))
      | Inr (is_list, payload, rest) \<Rightarrow>
          if \<not> is_list then (response, Some (rlp_error KindMismatch))
          else if payload = [] then (response, Some (rlp_error TooFewElements))
          else (case decode_item SUInt [0] payload of
                  Inl (DecodeError r path) \<Rightarrow> (response, Some (rlp_error r))
                | Inr (v, rest1) \<Rightarrow>
                    (let stored = response\<lparr>RequestID :=
                           (case v of UInt w \<Rightarrow> w | _ \<Rightarrow> RequestID response)\<rparr>
                     in if rest1 = [] then (stored, Some (rlp_error TooFewElements))
                        else (case split_item rest1 of
                                Inl r \<Rightarrow> (stored, Some (rlp_error r))
                              | Inr (k, p, rest2) \<Rightarrow>
                                  if rest2 = [] then (stored, None)
                                  else (stored, Some (rlp_error TooManyElements))))))"

text \<open>Modelled from the spec: a request record as a nested value, the envelope
  of section 3: the request id, then the payload, whose first element is the
  method name and whose other elements are the arguments in the order
  \<^verbatim>\<open>NewMessage\<close> assigns them.\<close>

fun request_value :: "request \<Rightarrow> nested" where
  "request_value (helloRequest i m flag) = List [UInt i, List [Bytes m, UInt flag]]"
| "request_value (portSendRequest i m ref data) =
     List [UInt i, List [Bytes m, UInt ref, Bytes data]]"
| "request_value (portCloseRequest i m ref) = List [UInt i, List [Bytes m, UInt ref]]"
| "request_value (blockRequest i m n) = List [UInt i, List [Bytes m, UInt n]]"
| "request_value (blockPeakRequest i m) = List [UInt i, List [Bytes m]]"
| "request_value (blockHeaderRequest i m n) = List [UInt i, List [Bytes m, UInt n]]"
| "request_value (blockquickRequest i m lastValid windowSize) =
     List [UInt i, List [Bytes m, UInt lastValid, UInt windowSize]]"
| "request_value (accountRequest i m n address) =
     List [UInt i, List [Bytes m, UInt n, Bytes address]]"
| "request_value (accountRootsRequest i m n address) =
     List [UInt i, List [Bytes m, UInt n, Bytes address]]"
| "request_value (accountValueRequest i m n address key) =
     List [UInt i, List [Bytes m, UInt n, Bytes address, Bytes key]]"
| "request_value (ticketRequest i m n fleetAddr totalConnections totalBytes localAddr deviceSig) =
     List [UInt i, List [Bytes m, UInt n, Bytes fleetAddr, UInt totalConnections,
                         UInt totalBytes, Bytes localAddr, Bytes deviceSig]]"
| "request_value (portOpenRequest i m deviceID port mode) =
     List [UInt i, List [Bytes m, Bytes deviceID, UInt port, Bytes mode]]"
| "request_value (objectRequest i m deviceID) = List [UInt i, List [Bytes m, Bytes deviceID]]"
| "request_value (serverObjectRequest i m serverID) =
     List [UInt i, List [Bytes m, Bytes serverID]]"
| "request_value (stateRootsRequest i m n) = List [UInt i, List [Bytes m, UInt n]]"
| "request_value (portOpenOutboundResponse i responseType ref result) =
     List [UInt i, List [Bytes responseType, UInt ref, Bytes result]]"

text \<open>The shape of a nested value: the descriptor it is decoded against.\<close>

fun shape_of :: "nested \<Rightarrow> shape" where
  "shape_of (Bytes bs) = SBytes"
| "shape_of (UInt w) = SUInt"
| "shape_of (List vs) = SList (map shape_of vs)"

subsection \<open>An instance of the foreign functions\<close>

text \<open>The words of a text: the runs of characters between spaces.\<close>

fun words_from :: "string \<Rightarrow> string \<Rightarrow> string list" where
  "words_from w [] = (if w = [] then [] else [w])"
| "words_from w (c # cs) =
     (if c = CHR '' '' then (if w = [] then [] else [w]) @ words_from [] cs
      else words_from (w @ [c]) cs)"

definition words :: "string \<Rightarrow> string list" where
  "words s = words_from [] s"

text \<open>A small instance of the functions of the other packages, to evaluate the
  parsers on concrete buffers. Its encoder and its decoder of \<^verbatim>\<open>responseID\<close> are
  the codec above. Its other decoders do not read rlp: each returns a fixed
  record, except the decoder of \<^verbatim>\<open>errorResponse\<close>, which takes the buffer to be
  text: it fails on the empty buffer and stores nothing, it stores the words
  before the first \<^verbatim>\<open>?\<close> and fails when there is one, and it stores all the words
  otherwise. The too-old ticket reply is decoded to a record with the fields of
  the too-low reply.\<close>

definition example_foreign ::
  "(bytes, (string \<times> bytes) list, bytes list, unit, unit, unit, ticketTooLowResponse) foreign" where
  "example_foreign =
     \<lparr>Decode_portOpenResponse = (\<lambda>b. Inr \<lparr>por_Result = ''ok'', por_Ref = 7\<rparr>),
      Decode_blockResponse = (\<lambda>b. Inr b),
      Decode_blockHeaderResponse =
        (\<lambda>b. Inr \<lparr>bh_Items = [(''block_hash'', ''h''), (''number'', ''n'')],
                   bh_MinerPubkey = ''k''\<rparr>),
      Decode_blockquickResponse = (\<lambda>b. Inr \<lparr>bq_Items = []\<rparr>),
      Decode_blockPeakResponse = (\<lambda>b. Inr \<lparr>bp_BlockNumber = 100\<rparr>),
      Decode_ticketThanksResponse = (\<lambda>b. Inr ()),
      Decode_ticketTooLowResponse =
        (\<lambda>b. Inr \<lparr>tl_BlockHash = ''h'', tl_TotalConnections = 3, tl_TotalBytes = 4096,
                   tl_LocalAddr = ''a'', tl_DeviceSig = ''s''\<rparr>),
      Decode_ticketTooOldResponse =
        (\<lambda>b. Inr \<lparr>tl_BlockHash = ''h'', tl_TotalConnections = 3, tl_TotalBytes = 4096,
                   tl_LocalAddr = ''a'', tl_DeviceSig = ''s''\<rparr>),
      Decode_objectResponse =
        (\<lambda>b. Inr \<lparr>ob_ServerID = ''srv'', ob_PeakBlock = 5, ob_FleetAddr = ''fleet'',
                   ob_TotalConnections = 1, ob_TotalBytes = 2, ob_DeviceSig = ''d'',
                   ob_ServerSig = ''s'', ob_LocalAddr = ''l''\<rparr>),
      Decode_accountResponse = (\<lambda>b. Inr \<lparr>ac_Items = [], ac_MerkleProof = ()\<rparr>),
      Decode_accountRootsResponse = (\<lambda>b. Inr \<lparr>ar_AccountRoots = []\<rparr>),
      Decode_accountValueResponse = (\<lambda>b. Inr \<lparr>av_MerkleProof = ()\<rparr>),
      Decode_serverObjectResponse =
        (\<lambda>b. Inr \<lparr>sv_Host = ''host'', sv_EdgePort = 41045, sv_ServerPort = 51054,
                   sv_ServerSig = ''s''\<rparr>),
      Decode_stateRootsResponse = (\<lambda>b. Inr \<lparr>sr_StateRoots = []\<rparr>),
      Decode_portOpenInboundRequest =
        (\<lambda>b. Inr \<lparr>poi_DeviceID = ''dev'', poi_Port = 80, poi_Ref = 7\<rparr>),
      Decode_portSendInboundRequest = (\<lambda>b. Inr \<lparr>psi_Ref = 7, psi_Data = ''hi''\<rparr>),
      Decode_portCloseInboundRequest = (\<lambda>b. Inr \<lparr>pci_Ref = 7\<rparr>),
      Decode_goodbyeInboundRequest = (\<lambda>b. Inr \<lparr>gb_Reason = ''bye''\<rparr>),
      Decode_errorResponse =
        (\<lambda>b response.
           if b = [] then (response, Some (ForeignError ''EOF''))
           else if CHR ''?'' \<in> set b
           then (response\<lparr>er_Payload := words (takeWhile (\<lambda>c. c \<noteq> CHR ''?'') b)\<rparr>,
                 Some (ForeignError ''unexpected input''))
           else (response\<lparr>er_Payload := words b\<rparr>, None)),
      Decode_responseID = decode_responseID,
      EncodeToBytes = (\<lambda>r. Inr (encode (request_value r))),
      findItemInItems =
        (\<lambda>items key. case map_of items key of
             None \<Rightarrow> (\<lparr>Key = [], Value = []\<rparr>, Some errKeyNotFoundInItems)
           | Some v \<Rightarrow> (\<lparr>Key = key, Value = v\<rparr>, None)),
      DecompressPubkeyBytes = (\<lambda>b. b),
      NewHeader = (\<lambda>tx st prev sig pk ts n nonce. Inr [tx, st, prev, sig, pk]),
      Hash = concat,
      DecodeBytesToUint = (\<lambda>b. of_nat (length b)),
      DecodeBytesToInt = (\<lambda>b. of_nat (length b)),
      mt_parse = (\<lambda>p. Inr ([], 0, []))\<rparr>"


section \<open>Properties\<close>

subsection \<open>Markers\<close>

lemma Contains_sublist: "Contains b s \<longleftrightarrow> sublist s b"
  by (induction b) (auto simp: sublist_Cons_right)

lemma Contains_mono: "sublist p q \<Longrightarrow> Contains b q \<Longrightarrow> Contains b p"
  unfolding Contains_sublist by (rule sublist_order.order_trans)


subsection \<open>The dispatchers\<close>

lemma sublist_blockPivot:
  "sublist blockPivot block2Pivot" "sublist blockPivot blockHeaderPivot"
  "sublist blockPivot blockHeader2Pivot" "sublist blockPivot blockquickPivot"
  "sublist blockPivot blockquick2Pivot" "sublist blockPivot blockPeakPivot"
  by (simp_all add: pivot_defs sublist_code)

lemma sublist_accountPivot:
  "sublist accountPivot accountValuePivot" "sublist accountPivot accountRootsPivot"
  by (simp_all add: pivot_defs sublist_code)

lemma parseResponse_block_shadows:
  assumes "\<not> Contains buffer portOpenPivot"
    and "Contains buffer block2Pivot \<or> Contains buffer blockHeaderPivot \<or>
         Contains buffer blockHeader2Pivot \<or> Contains buffer blockquickPivot \<or>
         Contains buffer blockquick2Pivot \<or> Contains buffer blockPeakPivot"
  shows "parseResponse F buffer = parseBlockResponse F buffer"
proof -
  from assms(2) have "Contains buffer blockPivot"
    using sublist_blockPivot by (blast intro: Contains_mono)
  with assms(1) show ?thesis by (simp add: parseResponse_def)
qed

lemma parseResponse_account_shadows:
  assumes "\<not> Contains buffer portOpenPivot" and "\<not> Contains buffer blockPivot"
    and "Contains buffer accountValuePivot \<or> Contains buffer accountRootsPivot"
  shows "parseResponse F buffer = parseAccountResponse F buffer"
proof -
  from assms(3) have "Contains buffer accountPivot"
    using sublist_accountPivot by (blast intro: Contains_mono)
  moreover have "\<not> Contains buffer p" if "sublist blockPivot p" for p
    using assms(2) that by (blast intro: Contains_mono)
  ultimately show ?thesis
    using assms(1,2) sublist_blockPivot by (simp add: parseResponse_def)
qed

lemma parseResponse_unmatched:
  assumes "\<not> Contains buffer portOpenPivot" "\<not> Contains buffer blockPivot"
    "\<not> Contains buffer accountPivot" "\<not> Contains buffer stateRootsPivot"
    "\<not> Contains buffer objectPivot" "\<not> Contains buffer nodePivot"
    "\<not> Contains buffer ticketPivot"
  shows "parseResponse F buffer = Inl ErrResponseHandlerNotFound"
proof -
  have "\<not> Contains buffer p" if "sublist blockPivot p" for p
    using assms(2) that by (blast intro: Contains_mono)
  moreover have "\<not> Contains buffer p" if "sublist accountPivot p" for p
    using assms(3) that by (blast intro: Contains_mono)
  ultimately show ?thesis
    using assms sublist_blockPivot sublist_accountPivot by (simp add: parseResponse_def)
qed

text \<open>C1 (as amended). For the method tokens portopen, getblock, getblock2,
  getaccount, getstateroots, getobject and getnode: a buffer that contains the
  token, and none of the markers that \<^verbatim>\<open>parseResponse\<close> tests before it, is handed
  to the parser of that method, and the result of \<^verbatim>\<open>parseResponse\<close> is the result of
  that parser. A buffer that contains none of the markers portopen, getblock,
  getaccount, getstateroots, getobject, getnode and getticket (so also one whose
  only method token is hello, portsend, portclose or goodbye) gets
  ErrResponseHandlerNotFound.\<close>

theorem parseResponse_dispatch:
  "(Contains buffer portOpenPivot \<longrightarrow>
      parseResponse F buffer = parsePortOpenResponse F buffer) \<and>
   (\<not> Contains buffer portOpenPivot \<and> Contains buffer blockPivot \<longrightarrow>
      parseResponse F buffer = parseBlockResponse F buffer) \<and>
   (\<not> Contains buffer portOpenPivot \<and> Contains buffer block2Pivot \<longrightarrow>
      parseResponse F buffer = parseBlockResponse F buffer) \<and>
   (\<not> Contains buffer portOpenPivot \<and> \<not> Contains buffer blockPivot \<and>
    Contains buffer accountPivot \<longrightarrow>
      parseResponse F buffer = parseAccountResponse F buffer) \<and>
   (\<not> Contains buffer portOpenPivot \<and> \<not> Contains buffer blockPivot \<and>
    \<not> Contains buffer accountPivot \<and> Contains buffer stateRootsPivot \<longrightarrow>
      parseResponse F buffer = parseStateRootsResponse F buffer) \<and>
   (\<not> Contains buffer portOpenPivot \<and> \<not> Contains buffer blockPivot \<and>
    \<not> Contains buffer accountPivot \<and> \<not> Contains buffer stateRootsPivot \<and>
    Contains buffer objectPivot \<longrightarrow>
      parseResponse F buffer = parseDeviceObjectResponse F buffer) \<and>
   (\<not> Contains buffer portOpenPivot \<and> \<not> Contains buffer blockPivot \<and>
    \<not> Contains buffer accountPivot \<and> \<not> Contains buffer stateRootsPivot \<and>
    \<not> Contains buffer objectPivot \<and> Contains buffer nodePivot \<longrightarrow>
      parseResponse F buffer = parseServerObjResponse F buffer) \<and>
   (\<not> Contains buffer portOpenPivot \<and> \<not> Contains buffer blockPivot \<and>
    \<not> Contains buffer accountPivot \<and> \<not> Contains buffer stateRootsPivot \<and>
    \<not> Contains buffer objectPivot \<and> \<not> Contains buffer nodePivot \<and>
    \<not> Contains buffer ticketPivot \<longrightarrow>
      parseResponse F buffer = Inl ErrResponseHandlerNotFound)"
proof -
  have blk: "\<not> Contains buffer p" if "\<not> Contains buffer blockPivot" "sublist blockPivot p" for p
    using that by (blast intro: Contains_mono)
  have acc: "\<not> Contains buffer p" if "\<not> Contains buffer accountPivot" "sublist accountPivot p" for p
    using that by (blast intro: Contains_mono)
  have b2: "Contains buffer block2Pivot \<Longrightarrow> Contains buffer blockPivot"
    using sublist_blockPivot(1) by (rule Contains_mono)
  show ?thesis
    using b2 blk[OF _ sublist_blockPivot(1)] blk[OF _ sublist_blockPivot(2)]
      blk[OF _ sublist_blockPivot(3)] blk[OF _ sublist_blockPivot(4)]
      blk[OF _ sublist_blockPivot(5)] blk[OF _ sublist_blockPivot(6)]
      acc[OF _ sublist_accountPivot(1)] acc[OF _ sublist_accountPivot(2)]
    by (simp add: parseResponse_def)
qed

theorem parseResponse_dispatch_witness:
  "parseResponse example_foreign ''[7, [response, portopen, ok, 7]]''
     = parsePortOpenResponse example_foreign ''[7, [response, portopen, ok, 7]]'' \<and>
   parseResponse example_foreign ''[1, [response, getblock]]''
     = parseBlockResponse example_foreign ''[1, [response, getblock]]'' \<and>
   parseResponse example_foreign ''[1, [response, getblock2]]''
     = parseBlockResponse example_foreign ''[1, [response, getblock2]]'' \<and>
   parseResponse example_foreign ''[1, [response, getaccount]]''
     = parseAccountResponse example_foreign ''[1, [response, getaccount]]'' \<and>
   parseResponse example_foreign ''[1, [response, getstateroots]]''
     = parseStateRootsResponse example_foreign ''[1, [response, getstateroots]]'' \<and>
   parseResponse example_foreign ''[1, [response, getobject]]''
     = parseDeviceObjectResponse example_foreign ''[1, [response, getobject]]'' \<and>
   parseResponse example_foreign ''[1, [response, getnode]]''
     = parseServerObjResponse example_foreign ''[1, [response, getnode]]'' \<and>
   parseResponse example_foreign ''[1, [response, goodbye]]''
     = Inl ErrResponseHandlerNotFound"
  using parseResponse_dispatch[of "''[7, [response, portopen, ok, 7]]''" example_foreign]
    parseResponse_dispatch[of "''[1, [response, getblock]]''" example_foreign]
    parseResponse_dispatch[of "''[1, [response, getblock2]]''" example_foreign]
    parseResponse_dispatch[of "''[1, [response, getaccount]]''" example_foreign]
    parseResponse_dispatch[of "''[1, [response, getstateroots]]''" example_foreign]
    parseResponse_dispatch[of "''[1, [response, getobject]]''" example_foreign]
    parseResponse_dispatch[of "''[1, [response, getnode]]''" example_foreign]
    parseResponse_dispatch[of "''[1, [response, goodbye]]''" example_foreign]
  by (simp add: pivot_defs)

text \<open>C1 fails as stated: a response buffer that contains the token hello and no
  other method token is handed to no parser; \<^verbatim>\<open>parseResponse\<close> has no branch for
  hello and returns ErrResponseHandlerNotFound.\<close>

theorem parseResponse_hello_not_dispatched:
  "Contains ''[1, [response, hello]]'' helloPivot \<and>
   parseResponse example_foreign ''[1, [response, hello]]'' = Inl ErrResponseHandlerNotFound"
  by (simp add: parseResponse_def pivot_defs)


lemma parseInboundRequest_unmatched:
  assumes "\<not> Contains buffer portOpenPivot" "\<not> Contains buffer portSendPivot"
    "\<not> Contains buffer portClosePivot" "\<not> Contains buffer goodbyePivot"
  shows "parseInboundRequest F buffer = Inr None"
  using assms by (simp add: parseInboundRequest_def)

text \<open>C3, on the inbound-request path: for a buffer that matches none of the four
  markers, \<^verbatim>\<open>parseInboundRequest\<close> returns neither a request nor an error, where the
  claim requires ErrResponseHandlerNotFound.\<close>

theorem parseInboundRequest_drops_unknown:
  "\<not> Contains ''[9, [ping]]'' portOpenPivot \<and> \<not> Contains ''[9, [ping]]'' portSendPivot \<and>
   \<not> Contains ''[9, [ping]]'' portClosePivot \<and> \<not> Contains ''[9, [ping]]'' goodbyePivot \<and>
   parseInboundRequest example_foreign ''[9, [ping]]'' = Inr None \<and>
   parseInboundRequest example_foreign ''[9, [ping]]'' \<noteq> Inl ErrResponseHandlerNotFound"
  by (simp add: parseInboundRequest_def pivot_defs)

subsection \<open>Ticket replies\<close>

text \<open>C4 (as amended). The too_low branch returns the fields the server supplied
  (block hash, total connections, total bytes, local address, device signature)
  with the error ErrTicketTooLow; the thanks! branch returns the void ticket; the
  too_old branch returns a ticket in which only the error ErrTicketTooOld is
  set.\<close>

theorem ticket_reply_fields:
  "(Contains buffer ticketThanksPivot \<and> Decode_ticketThanksResponse F buffer = Inr r1 \<longrightarrow>
      parseDeviceTicketResponse F buffer = Inr (V_DeviceTicket DeviceTicket_zero)) \<and>
   (\<not> Contains buffer ticketThanksPivot \<and> Contains buffer ticketTooLowPivot \<and>
    Decode_ticketTooLowResponse F buffer = Inr r2 \<longrightarrow>
      (\<exists>t. parseDeviceTicketResponse F buffer = Inr (V_DeviceTicket t) \<and>
           BlockHash t = tl_BlockHash r2 \<and>
           TotalConnections t = tl_TotalConnections r2 \<and>
           TotalBytes t = tl_TotalBytes r2 \<and>
           LocalAddr t = tl_LocalAddr r2 \<and>
           DeviceSig t = tl_DeviceSig r2 \<and>
           Err t = Some ErrTicketTooLow)) \<and>
   (\<not> Contains buffer ticketThanksPivot \<and> \<not> Contains buffer ticketTooLowPivot \<and>
    Contains buffer ticketTooOldPivot \<and> Decode_ticketTooOldResponse F buffer = Inr r3 \<longrightarrow>
      parseDeviceTicketResponse F buffer
        = Inr (V_DeviceTicket (DeviceTicket_zero\<lparr>Err := Some ErrTicketTooOld\<rparr>)))"
  by (simp add: parseDeviceTicketResponse_def)

theorem ticket_reply_fields_witness:
  "parseDeviceTicketResponse example_foreign ''[response, ticket, thanks!, ok]''
     = Inr (V_DeviceTicket DeviceTicket_zero) \<and>
   (\<exists>t. parseDeviceTicketResponse example_foreign ''[response, ticket, too_low, h, 3, 4096, a, s]''
           = Inr (V_DeviceTicket t) \<and>
        BlockHash t = ''h'' \<and> TotalConnections t = 3 \<and> TotalBytes t = 4096 \<and>
        LocalAddr t = ''a'' \<and> DeviceSig t = ''s'' \<and> Err t = Some ErrTicketTooLow) \<and>
   parseDeviceTicketResponse example_foreign ''[response, ticket, too_old, 5]''
     = Inr (V_DeviceTicket (DeviceTicket_zero\<lparr>Err := Some ErrTicketTooOld\<rparr>))"
  using
    ticket_reply_fields[of "''[response, ticket, thanks!, ok]''" example_foreign "()"]
    ticket_reply_fields[of "''[response, ticket, too_low, h, 3, 4096, a, s]''" example_foreign _
      "\<lparr>tl_BlockHash = ''h'', tl_TotalConnections = 3, tl_TotalBytes = 4096,
        tl_LocalAddr = ''a'', tl_DeviceSig = ''s''\<rparr>"]
    ticket_reply_fields[of "''[response, ticket, too_old, 5]''" example_foreign _ _
      "\<lparr>tl_BlockHash = ''h'', tl_TotalConnections = 3, tl_TotalBytes = 4096,
        tl_LocalAddr = ''a'', tl_DeviceSig = ''s''\<rparr>"]
  by (simp add: pivot_defs example_foreign_def)

text \<open>C4 fails as stated: for a too_old reply in which the server supplied a block
  hash, totals, an address and a signature, the ticket returned carries none of
  them, only the error marker.\<close>

theorem too_old_reply_drops_server_fields:
  "Contains ''[response, ticket, too_old, h, 3, 4096, a, s]'' ticketTooOldPivot \<and>
   Decode_ticketTooOldResponse example_foreign ''[response, ticket, too_old, h, 3, 4096, a, s]''
     = Inr \<lparr>tl_BlockHash = ''h'', tl_TotalConnections = 3, tl_TotalBytes = 4096,
            tl_LocalAddr = ''a'', tl_DeviceSig = ''s''\<rparr> \<and>
   parseDeviceTicketResponse example_foreign ''[response, ticket, too_old, h, 3, 4096, a, s]''
     = Inr (V_DeviceTicket
         \<lparr>ServerID = zeroAddr, BlockNumber = 0, BlockHash = [], FleetAddr = zeroAddr,
          TotalConnections = 0, TotalBytes = 0, DeviceSig = [], ServerSig = [],
          LocalAddr = [], Err = Some ErrTicketTooOld\<rparr>)"
  by (simp add: parseDeviceTicketResponse_def pivot_defs example_foreign_def
      DeviceTicket_zero_def)

text \<open>C5. For a ticket reply that contains the token thanks! and decodes,
  \<^verbatim>\<open>parseDeviceTicketResponse\<close> returns a void ticket: the counters and the block
  number are zero, the byte slices are empty, the two 20-byte addresses are zero
  bytes, and no error is set.\<close>

theorem thanks_reply_void_ticket:
  assumes "Contains buffer ticketThanksPivot"
    and "Decode_ticketThanksResponse F buffer = Inr response"
  shows "\<exists>t. parseDeviceTicketResponse F buffer = Inr (V_DeviceTicket t) \<and>
             TotalConnections t = 0 \<and> TotalBytes t = 0 \<and> BlockNumber t = 0 \<and>
             BlockHash t = [] \<and> DeviceSig t = [] \<and> ServerSig t = [] \<and> LocalAddr t = [] \<and>
             ServerID t = replicate 20 (CHR 0x00) \<and> FleetAddr t = replicate 20 (CHR 0x00) \<and>
             Err t = None"
  using assms by (simp add: parseDeviceTicketResponse_def DeviceTicket_zero_def zeroAddr_def)

theorem thanks_reply_void_ticket_witness:
  "Contains ''[3, [response, ticket, thanks!]]'' ticketThanksPivot \<and>
   Decode_ticketThanksResponse example_foreign ''[3, [response, ticket, thanks!]]'' = Inr () \<and>
   (\<exists>t. parseDeviceTicketResponse example_foreign ''[3, [response, ticket, thanks!]]''
           = Inr (V_DeviceTicket t) \<and>
        TotalConnections t = 0 \<and> TotalBytes t = 0 \<and> BlockNumber t = 0 \<and>
        BlockHash t = [] \<and> DeviceSig t = [] \<and> ServerSig t = [] \<and> LocalAddr t = [] \<and>
        ServerID t = replicate 20 (CHR 0x00) \<and> FleetAddr t = replicate 20 (CHR 0x00) \<and>
        Err t = None)"
proof -
  have c: "Contains ''[3, [response, ticket, thanks!]]'' ticketThanksPivot"
    by (simp add: pivot_defs)
  have d: "Decode_ticketThanksResponse example_foreign ''[3, [response, ticket, thanks!]]''
             = Inr ()"
    by (simp add: example_foreign_def)
  show ?thesis using c d thanks_reply_void_ticket[OF c d] by blast
qed

text \<open>C6. For a ticket reply that contains none of the tokens thanks!, too_low and
  too_old, \<^verbatim>\<open>parseDeviceTicketResponse\<close> fails with ErrFailedToParseTicket and
  returns no ticket.\<close>

theorem unknown_ticket_reply_fails:
  assumes "\<not> Contains buffer ticketThanksPivot"
    and "\<not> Contains buffer ticketTooLowPivot"
    and "\<not> Contains buffer ticketTooOldPivot"
  shows "parseDeviceTicketResponse F buffer = Inl ErrFailedToParseTicket \<and>
         (\<forall>t. parseDeviceTicketResponse F buffer \<noteq> Inr t)"
  using assms by (simp add: parseDeviceTicketResponse_def)

theorem unknown_ticket_reply_fails_witness:
  "\<not> Contains ''[3, [response, ticket, maybe]]'' ticketThanksPivot \<and>
   \<not> Contains ''[3, [response, ticket, maybe]]'' ticketTooLowPivot \<and>
   \<not> Contains ''[3, [response, ticket, maybe]]'' ticketTooOldPivot \<and>
   parseDeviceTicketResponse example_foreign ''[3, [response, ticket, maybe]]''
     = Inl ErrFailedToParseTicket"
proof -
  have a: "\<not> Contains ''[3, [response, ticket, maybe]]'' ticketThanksPivot"
    and b: "\<not> Contains ''[3, [response, ticket, maybe]]'' ticketTooLowPivot"
    and c: "\<not> Contains ''[3, [response, ticket, maybe]]'' ticketTooOldPivot"
    by (simp_all add: pivot_defs)
  show ?thesis using a b c unknown_ticket_reply_fails[OF a b c, of example_foreign] by blast
qed


subsection \<open>Block headers\<close>

text \<open>C7. For a block-header response that decodes and whose header, built from
  the transaction hash, state hash, previous block, miner signature, miner public
  key, timestamp, number and nonce, has a hash different from the supplied
  block_hash item, \<^verbatim>\<open>parseBlockHeaderResponse\<close> fails with the hash-mismatch error
  and returns no header.\<close>

theorem header_hash_mismatch_fails:
  assumes "Decode_blockHeaderResponse F buffer = Inr response"
    and "NewHeader F
           (Value (fst (findItemInItems F (bh_Items response) ''transaction_hash'')))
           (Value (fst (findItemInItems F (bh_Items response) ''state_hash'')))
           (Value (fst (findItemInItems F (bh_Items response) ''previous_block'')))
           (Value (fst (findItemInItems F (bh_Items response) ''miner_signature'')))
           (DecompressPubkeyBytes F (bh_MinerPubkey response))
           (DecodeBytesToUint F (Value (fst (findItemInItems F (bh_Items response) ''timestamp''))))
           (DecodeBytesToUint F (Value (fst (findItemInItems F (bh_Items response) ''number''))))
           (DecodeBytesToUint F (Value (fst (findItemInItems F (bh_Items response) ''nonce''))))
         = Inr header"
    and "Hash F header \<noteq> Value (fst (findItemInItems F (bh_Items response) ''block_hash''))"
  shows "parseBlockHeaderResponse F buffer
           = Inl (BlockhashNotRealHash
                    (Value (fst (findItemInItems F (bh_Items response) ''block_hash'')))) \<and>
         (\<forall>v. parseBlockHeaderResponse F buffer \<noteq> Inr v)"
  using assms by (simp add: parseBlockHeaderResponse_def Let_def)

theorem header_hash_mismatch_fails_witness:
  "Hash example_foreign [[], [], [], [], ''k''] \<noteq> ''h'' \<and>
   parseBlockHeaderResponse example_foreign ''[1, [response, getblockheader2]]''
     = Inl (BlockhashNotRealHash ''h'')"
  using header_hash_mismatch_fails[of example_foreign "''[1, [response, getblockheader2]]''"
      "\<lparr>bh_Items = [(''block_hash'', ''h''), (''number'', ''n'')], bh_MinerPubkey = ''k''\<rparr>"
      "[[], [], [], [], ''k'']"]
  by (simp add: example_foreign_def)

lemma parseBlockHeaderResponse_accepts_matching_hash_only:
  assumes "parseBlockHeaderResponse F buffer = Inr v"
  shows "\<exists>response header.
           Decode_blockHeaderResponse F buffer = Inr response \<and> v = V_Header header \<and>
           Hash F header = Value (fst (findItemInItems F (bh_Items response) ''block_hash''))"
  using assms
  by (auto simp: parseBlockHeaderResponse_def Let_def split: sum.splits if_splits)

subsection \<open>parseError and ResponseID\<close>

text \<open>C9. \<^verbatim>\<open>parseError\<close> never returns an error value; it drops the error of
  \<^verbatim>\<open>Decode\<close> and reads the last element of the payload that \<^verbatim>\<open>Decode\<close> left in the
  struct, whether the decoding succeeded or failed. So for every buffer whose
  decoded error envelope has an empty payload the index is out of range and the
  call panics, and for every other buffer the last element is the message.\<close>

theorem parseError_empty_payload_panics:
  "(\<forall>e err. parseError F buffer \<noteq> Inr (e, Some err)) \<and>
   (er_Payload (fst (Decode_errorResponse F buffer errorResponse_zero)) = [] \<longrightarrow>
      parseError F buffer = Inl IndexOutOfRange) \<and>
   (er_Payload (fst (Decode_errorResponse F buffer errorResponse_zero)) \<noteq> [] \<longrightarrow>
      parseError F buffer
        = Inr (\<lparr>Message = last (er_Payload (fst (Decode_errorResponse F buffer errorResponse_zero)))\<rparr>,
               None))"
  by (simp add: parseError_def Let_def last_conv_nth)

theorem parseError_empty_payload_panics_witness:
  "Decode_errorResponse example_foreign [] errorResponse_zero
     = (\<lparr>er_Payload = []\<rparr>, Some (ForeignError ''EOF'')) \<and>
   parseError example_foreign [] = Inl IndexOutOfRange \<and>
   Decode_errorResponse example_foreign ''error boom ?'' errorResponse_zero
     = (\<lparr>er_Payload = [''error'', ''boom'']\<rparr>, Some (ForeignError ''unexpected input'')) \<and>
   parseError example_foreign ''error boom ?'' = Inr (\<lparr>Message = ''boom''\<rparr>, None) \<and>
   Decode_errorResponse example_foreign ''error ticket too_low'' errorResponse_zero
     = (\<lparr>er_Payload = [''error'', ''ticket'', ''too_low'']\<rparr>, None) \<and>
   parseError example_foreign ''error ticket too_low'' = Inr (\<lparr>Message = ''too_low''\<rparr>, None)"
  using parseError_empty_payload_panics[of example_foreign "[]"]
    parseError_empty_payload_panics[of example_foreign "''error boom ?''"]
    parseError_empty_payload_panics[of example_foreign "''error ticket too_low''"]
  by (simp add: example_foreign_def errorResponse_zero_def words_def)

text \<open>C10 (as amended). For a buffer that does not decode as a response envelope,
  \<^verbatim>\<open>ResponseID\<close> drops the decode error and returns the request id that \<^verbatim>\<open>Decode\<close>
  left in the struct: 0 when \<^verbatim>\<open>Decode\<close> stored nothing before it failed, the stored
  id otherwise. The result is the same as for any buffer that decodes to that
  request id.\<close>

theorem ResponseID_returns_stored_id:
  assumes "Decode_responseID F buffer responseID_zero = (response, Some err)"
  shows "ResponseID F buffer = RequestID response \<and>
         (response = responseID_zero \<longrightarrow> ResponseID F buffer = 0) \<and>
         (\<forall>buffer' response'.
             Decode_responseID F buffer' responseID_zero = (response', None) \<and>
             RequestID response' = RequestID response \<longrightarrow>
             ResponseID F buffer' = ResponseID F buffer)"
  using assms by (auto simp: ResponseID_def responseID_zero_def)

text \<open>The envelope decoder on four buffers: the empty buffer; a list that holds
  the request id 7 and then a string cut short; two whole envelopes, with the
  request ids 7 and 0 and the payload list of the one string \<^verbatim>\<open>response\<close>.\<close>

lemma decode_responseID_examples:
  "decode_responseID [] responseID_zero
     = (\<lparr>RequestID = 0\<rparr>, Some (ForeignError ''rlp: unexpected end of input''))"
  "decode_responseID [CHR 0xC3, CHR 0x07, CHR 0x83, CHR ''a''] responseID_zero
     = (\<lparr>RequestID = 7\<rparr>, Some (ForeignError ''rlp: unexpected end of input''))"
  "decode_responseID
       [CHR 0xCB, CHR 0x07, CHR 0xC9, CHR 0x88, CHR ''r'', CHR ''e'', CHR ''s'',
        CHR ''p'', CHR ''o'', CHR ''n'', CHR ''s'', CHR ''e'']
       responseID_zero = (\<lparr>RequestID = 7\<rparr>, None)"
  "decode_responseID
       [CHR 0xCB, CHR 0x80, CHR 0xC9, CHR 0x88, CHR ''r'', CHR ''e'', CHR ''s'',
        CHR ''p'', CHR ''o'', CHR ''n'', CHR ''s'', CHR ''e'']
       responseID_zero = (\<lparr>RequestID = 0\<rparr>, None)"
  unfolding decode_responseID_def
  by (simp_all add: responseID_zero_def rlp_error_def Let_def payload_of_def be_nat_def)

text \<open>C10 fails as stated: the buffer \<^verbatim>\<open>c3 07 83 61\<close> does not decode as a response
  envelope (its second element announces three bytes and has one), and
  \<^verbatim>\<open>ResponseID\<close> returns 7, the request id stored before the failure, not 0.\<close>

theorem ResponseID_undecodable_not_zero:
  "Decode_responseID example_foreign [CHR 0xC3, CHR 0x07, CHR 0x83, CHR ''a''] responseID_zero
     = (\<lparr>RequestID = 7\<rparr>, Some (ForeignError ''rlp: unexpected end of input'')) \<and>
   ResponseID example_foreign [CHR 0xC3, CHR 0x07, CHR 0x83, CHR ''a''] = 7 \<and>
   ResponseID example_foreign [CHR 0xC3, CHR 0x07, CHR 0x83, CHR ''a''] \<noteq> 0"
  by (simp add: ResponseID_def example_foreign_def decode_responseID_examples)

theorem ResponseID_returns_stored_id_witness:
  "Decode_responseID example_foreign [] responseID_zero
     = (responseID_zero, Some (ForeignError ''rlp: unexpected end of input'')) \<and>
   ResponseID example_foreign [] = 0 \<and>
   ResponseID example_foreign
       [CHR 0xCB, CHR 0x80, CHR 0xC9, CHR 0x88, CHR ''r'', CHR ''e'', CHR ''s'',
        CHR ''p'', CHR ''o'', CHR ''n'', CHR ''s'', CHR ''e'']
       = ResponseID example_foreign [] \<and>
   Decode_responseID example_foreign [CHR 0xC3, CHR 0x07, CHR 0x83, CHR ''a''] responseID_zero
     = (\<lparr>RequestID = 7\<rparr>, Some (ForeignError ''rlp: unexpected end of input'')) \<and>
   ResponseID example_foreign [CHR 0xC3, CHR 0x07, CHR 0x83, CHR ''a''] = 7 \<and>
   ResponseID example_foreign
       [CHR 0xCB, CHR 0x07, CHR 0xC9, CHR 0x88, CHR ''r'', CHR ''e'', CHR ''s'',
        CHR ''p'', CHR ''o'', CHR ''n'', CHR ''s'', CHR ''e'']
     = ResponseID example_foreign [CHR 0xC3, CHR 0x07, CHR 0x83, CHR ''a'']"
proof -
  have a: "Decode_responseID example_foreign [] responseID_zero
             = (responseID_zero, Some (ForeignError ''rlp: unexpected end of input''))"
    using decode_responseID_examples(1) by (simp add: example_foreign_def responseID_zero_def)
  have b: "Decode_responseID example_foreign [CHR 0xC3, CHR 0x07, CHR 0x83, CHR ''a'']
             responseID_zero
             = (\<lparr>RequestID = 7\<rparr>, Some (ForeignError ''rlp: unexpected end of input''))"
    by (simp add: example_foreign_def decode_responseID_examples)
  have c: "Decode_responseID example_foreign
       [CHR 0xCB, CHR 0x80, CHR 0xC9, CHR 0x88, CHR ''r'', CHR ''e'', CHR ''s'',
        CHR ''p'', CHR ''o'', CHR ''n'', CHR ''s'', CHR ''e'']
       responseID_zero
             = (\<lparr>RequestID = 0\<rparr>, None)"
    by (simp add: example_foreign_def decode_responseID_examples)
  have d: "Decode_responseID example_foreign
       [CHR 0xCB, CHR 0x07, CHR 0xC9, CHR 0x88, CHR ''r'', CHR ''e'', CHR ''s'',
        CHR ''p'', CHR ''o'', CHR ''n'', CHR ''s'', CHR ''e'']
       responseID_zero
             = (\<lparr>RequestID = 7\<rparr>, None)"
    by (simp add: example_foreign_def decode_responseID_examples)
  show ?thesis
    using a b c d ResponseID_returns_stored_id[OF a] ResponseID_returns_stored_id[OF b]
    by (simp add: responseID_zero_def)
qed


subsection \<open>NewMessage\<close>

lemma NewMessage_cases:
  "NewMessage F requestID ''hello'' (A_uint64 flag # rest)
     = Inr (case EncodeToBytes F (helloRequest requestID ''hello'' flag) of
              Inl err \<Rightarrow> Inl err
            | Inr bs \<Rightarrow> Inr (bs, None))"
  "NewMessage F requestID ''portsend'' (A_uint64 ref # A_bytes data # rest)
     = Inr (case EncodeToBytes F (portSendRequest requestID ''portsend'' ref data) of
              Inl err \<Rightarrow> Inl err
            | Inr bs \<Rightarrow> Inr (bs, None))"
  "NewMessage F requestID ''portclose'' (A_uint64 ref # rest)
     = Inr (case EncodeToBytes F (portCloseRequest requestID ''portclose'' ref) of
              Inl err \<Rightarrow> Inl err
            | Inr bs \<Rightarrow> Inr (bs, None))"
  "NewMessage F requestID ''getblock'' (A_uint64 blockNumber # rest)
     = Inr (case EncodeToBytes F (blockRequest requestID ''getblock'' blockNumber) of
              Inl err \<Rightarrow> Inl err
            | Inr bs \<Rightarrow> Inr (bs, Some (parseBlockResponse F)))"
  "NewMessage F requestID ''getblockpeak'' args
     = Inr (case EncodeToBytes F (blockPeakRequest requestID ''getblockpeak'') of
              Inl err \<Rightarrow> Inl err
            | Inr bs \<Rightarrow> Inr (bs, Some (parseBlockPeakResponse F)))"
  "NewMessage F requestID ''getblockheader2'' (A_uint64 blockNumber # rest)
     = Inr (case EncodeToBytes F (blockHeaderRequest requestID ''getblockheader2'' blockNumber) of
              Inl err \<Rightarrow> Inl err
            | Inr bs \<Rightarrow> Inr (bs, Some (parseBlockHeaderResponse F)))"
  "NewMessage F requestID ''getblockquick2'' (A_uint64 lastValid # A_uint64 windowSize # rest)
     = Inr (case EncodeToBytes F (blockquickRequest requestID ''getblockquick2'' lastValid windowSize) of
              Inl err \<Rightarrow> Inl err
            | Inr bs \<Rightarrow> Inr (bs, Some (parseBlockquickResponse F)))"
  "NewMessage F requestID ''getaccount'' (A_uint64 blockNumber # A_bytes address # rest)
     = Inr (case EncodeToBytes F (accountRequest requestID ''getaccount'' blockNumber address) of
              Inl err \<Rightarrow> Inl err
            | Inr bs \<Rightarrow> Inr (bs, Some (parseAccountResponse F)))"
  "NewMessage F requestID ''getaccountroots'' (A_uint64 blockNumber # A_bytes address # rest)
     = Inr (case EncodeToBytes F (accountRootsRequest requestID ''getaccountroots'' blockNumber address) of
              Inl err \<Rightarrow> Inl err
            | Inr bs \<Rightarrow> Inr (bs, Some (parseAccountRootsResponse F)))"
  "NewMessage F requestID ''getaccountvalue'' (A_uint64 blockNumber # A_bytes address # A_bytes key # rest)
     = Inr (case EncodeToBytes F (accountValueRequest requestID ''getaccountvalue'' blockNumber address key) of
              Inl err \<Rightarrow> Inl err
            | Inr bs \<Rightarrow> Inr (bs, Some (parseAccountValueResponse F)))"
  "NewMessage F requestID ''ticket'' (A_uint64 blockNumber # A_bytes fleetAddr # A_uint64 totalConnections # A_uint64 totalBytes # A_bytes localAddr # A_bytes deviceSig # rest)
     = Inr (case EncodeToBytes F (ticketRequest requestID ''ticket'' blockNumber fleetAddr totalConnections totalBytes localAddr deviceSig) of
              Inl err \<Rightarrow> Inl err
            | Inr bs \<Rightarrow> Inr (bs, Some (parseDeviceTicketResponse F)))"
  "NewMessage F requestID ''portopen'' (A_bytes deviceID # A_uint64 port # A_string mode # rest)
     = Inr (case EncodeToBytes F (portOpenRequest requestID ''portopen'' deviceID port mode) of
              Inl err \<Rightarrow> Inl err
            | Inr bs \<Rightarrow> Inr (bs, Some (parsePortOpenResponse F)))"
  "NewMessage F requestID ''getobject'' (A_bytes deviceID # rest)
     = Inr (case EncodeToBytes F (objectRequest requestID ''getobject'' deviceID) of
              Inl err \<Rightarrow> Inl err
            | Inr bs \<Rightarrow> Inr (bs, Some (parseDeviceObjectResponse F)))"
  "NewMessage F requestID ''getnode'' (A_bytes serverID # rest)
     = Inr (case EncodeToBytes F (serverObjectRequest requestID ''getnode'' serverID) of
              Inl err \<Rightarrow> Inl err
            | Inr bs \<Rightarrow> Inr (bs, Some (parseServerObjResponse F)))"
  "NewMessage F requestID ''getstateroots'' (A_uint64 blockNumber # rest)
     = Inr (case EncodeToBytes F (stateRootsRequest requestID ''getstateroots'' blockNumber) of
              Inl err \<Rightarrow> Inl err
            | Inr bs \<Rightarrow> Inr (bs, Some (parseStateRootsResponse F)))"
  by (simp_all add: NewMessage_def and_then_def uint64_at_def bytes_at_def string_at_def
      encoded_def)

lemma NewMessage_default:
  assumes "m \<notin> set [''hello'', ''portsend'', ''portclose'', ''getblock'', ''getblockpeak'',
             ''getblockheader2'', ''getblockquick2'', ''getaccount'', ''getaccountroots'',
             ''getaccountvalue'', ''ticket'', ''portopen'', ''getobject'', ''getnode'',
             ''getstateroots'']"
  shows "NewMessage F requestID m args = Inr (Inl ErrRPCNotSupport)"
  using assms by (simp add: NewMessage_def)

text \<open>C8 (as amended). For each of the fifteen methods that \<^verbatim>\<open>NewMessage\<close> has a case
  for (hello, portsend, portclose, getblock, getblockpeak, getblockheader2,
  getblockquick2, getaccount, getaccountroots, getaccountvalue, ticket, portopen,
  getobject, getnode, getstateroots), with well-typed arguments it returns what
  \<^verbatim>\<open>rlp.EncodeToBytes\<close> returns for the request built from the request id, the
  method name and the arguments: the encoded bytes, with the parser of the
  method's response, or the encoder's error. For every other method name it
  returns ErrRPCNotSupport.\<close>

theorem NewMessage_supported_methods:
  "(NewMessage F requestID ''hello'' (A_uint64 flag # rest)
        = Inr (case EncodeToBytes F (helloRequest requestID ''hello'' flag) of
                 Inl err \<Rightarrow> Inl err
               | Inr bs \<Rightarrow> Inr (bs, None))) \<and>
   (NewMessage F requestID ''portsend'' (A_uint64 ref # A_bytes data # rest)
        = Inr (case EncodeToBytes F (portSendRequest requestID ''portsend'' ref data) of
                 Inl err \<Rightarrow> Inl err
               | Inr bs \<Rightarrow> Inr (bs, None))) \<and>
   (NewMessage F requestID ''portclose'' (A_uint64 ref # rest)
        = Inr (case EncodeToBytes F (portCloseRequest requestID ''portclose'' ref) of
                 Inl err \<Rightarrow> Inl err
               | Inr bs \<Rightarrow> Inr (bs, None))) \<and>
   (NewMessage F requestID ''getblock'' (A_uint64 blockNumber # rest)
        = Inr (case EncodeToBytes F (blockRequest requestID ''getblock'' blockNumber) of
                 Inl err \<Rightarrow> Inl err
               | Inr bs \<Rightarrow> Inr (bs, Some (parseBlockResponse F)))) \<and>
   (NewMessage F requestID ''getblockpeak'' args
        = Inr (case EncodeToBytes F (blockPeakRequest requestID ''getblockpeak'') of
                 Inl err \<Rightarrow> Inl err
               | Inr bs \<Rightarrow> Inr (bs, Some (parseBlockPeakResponse F)))) \<and>
   (NewMessage F requestID ''getblockheader2'' (A_uint64 blockNumber # rest)
        = Inr (case EncodeToBytes F (blockHeaderRequest requestID ''getblockheader2'' blockNumber) of
                 Inl err \<Rightarrow> Inl err
               | Inr bs \<Rightarrow> Inr (bs, Some (parseBlockHeaderResponse F)))) \<and>
   (NewMessage F requestID ''getblockquick2'' (A_uint64 lastValid # A_uint64 windowSize # rest)
        = Inr (case EncodeToBytes F (blockquickRequest requestID ''getblockquick2'' lastValid windowSize) of
                 Inl err \<Rightarrow> Inl err
               | Inr bs \<Rightarrow> Inr (bs, Some (parseBlockquickResponse F)))) \<and>
   (NewMessage F requestID ''getaccount'' (A_uint64 blockNumber # A_bytes address # rest)
        = Inr (case EncodeToBytes F (accountRequest requestID ''getaccount'' blockNumber address) of
                 Inl err \<Rightarrow> Inl err
               | Inr bs \<Rightarrow> Inr (bs, Some (parseAccountResponse F)))) \<and>
   (NewMessage F requestID ''getaccountroots'' (A_uint64 blockNumber # A_bytes address # rest)
        = Inr (case EncodeToBytes F (accountRootsRequest requestID ''getaccountroots'' blockNumber address) of
                 Inl err \<Rightarrow> Inl err
               | Inr bs \<Rightarrow> Inr (bs, Some (parseAccountRootsResponse F)))) \<and>
   (NewMessage F requestID ''getaccountvalue'' (A_uint64 blockNumber # A_bytes address # A_bytes key # rest)
        = Inr (case EncodeToBytes F (accountValueRequest requestID ''getaccountvalue'' blockNumber address key) of
                 Inl err \<Rightarrow> Inl err
               | Inr bs \<Rightarrow> Inr (bs, Some (parseAccountValueResponse F)))) \<and>
   (NewMessage F requestID ''ticket'' (A_uint64 blockNumber # A_bytes fleetAddr # A_uint64 totalConnections # A_uint64 totalBytes # A_bytes localAddr # A_bytes deviceSig # rest)
        = Inr (case EncodeToBytes F (ticketRequest requestID ''ticket'' blockNumber fleetAddr totalConnections totalBytes localAddr deviceSig) of
                 Inl err \<Rightarrow> Inl err
               | Inr bs \<Rightarrow> Inr (bs, Some (parseDeviceTicketResponse F)))) \<and>
   (NewMessage F requestID ''portopen'' (A_bytes deviceID # A_uint64 port # A_string mode # rest)
        = Inr (case EncodeToBytes F (portOpenRequest requestID ''portopen'' deviceID port mode) of
                 Inl err \<Rightarrow> Inl err
               | Inr bs \<Rightarrow> Inr (bs, Some (parsePortOpenResponse F)))) \<and>
   (NewMessage F requestID ''getobject'' (A_bytes deviceID # rest)
        = Inr (case EncodeToBytes F (objectRequest requestID ''getobject'' deviceID) of
                 Inl err \<Rightarrow> Inl err
               | Inr bs \<Rightarrow> Inr (bs, Some (parseDeviceObjectResponse F)))) \<and>
   (NewMessage F requestID ''getnode'' (A_bytes serverID # rest)
        = Inr (case EncodeToBytes F (serverObjectRequest requestID ''getnode'' serverID) of
                 Inl err \<Rightarrow> Inl err
               | Inr bs \<Rightarrow> Inr (bs, Some (parseServerObjResponse F)))) \<and>
   (NewMessage F requestID ''getstateroots'' (A_uint64 blockNumber # rest)
        = Inr (case EncodeToBytes F (stateRootsRequest requestID ''getstateroots'' blockNumber) of
                 Inl err \<Rightarrow> Inl err
               | Inr bs \<Rightarrow> Inr (bs, Some (parseStateRootsResponse F)))) \<and>
   (m \<notin> set [''hello'', ''portsend'', ''portclose'', ''getblock'', ''getblockpeak'',
             ''getblockheader2'', ''getblockquick2'', ''getaccount'', ''getaccountroots'',
             ''getaccountvalue'', ''ticket'', ''portopen'', ''getobject'', ''getnode'',
             ''getstateroots''] \<longrightarrow>
      NewMessage F requestID m args = Inr (Inl ErrRPCNotSupport))"
  using NewMessage_default[of m F requestID args] by (simp only: NewMessage_cases simp_thms) blast

text \<open>C8 fails as stated: the listed method tokens goodbye, getblock2,
  getblockheader and getblockquick have no case in \<^verbatim>\<open>NewMessage\<close>, which returns
  ErrRPCNotSupport for them.\<close>

theorem NewMessage_goodbye_unsupported:
  "NewMessage example_foreign 1 ''goodbye'' [] = Inr (Inl ErrRPCNotSupport) \<and>
   NewMessage example_foreign 1 ''getblock2'' [A_uint64 5] = Inr (Inl ErrRPCNotSupport) \<and>
   NewMessage example_foreign 1 ''getblockheader'' [A_uint64 5] = Inr (Inl ErrRPCNotSupport) \<and>
   NewMessage example_foreign 1 ''getblockquick'' [A_uint64 5, A_uint64 100]
     = Inr (Inl ErrRPCNotSupport)"
  by (simp add: NewMessage_def)

theorem NewMessage_supported_methods_witness:
  "NewMessage example_foreign 1 ''goodbye'' [] = Inr (Inl ErrRPCNotSupport) \<and>
   EncodeToBytes example_foreign (helloRequest 1 ''hello'' 1000)
     = Inr [CHR 0xCB, CHR 0x01, CHR 0xC9, CHR 0x85, CHR ''h'', CHR ''e'', CHR ''l'', CHR ''l'',
            CHR ''o'', CHR 0x82, CHR 0x03, CHR 0xE8] \<and>
   NewMessage example_foreign 1 ''hello'' [A_uint64 1000]
     = Inr (Inr ([CHR 0xCB, CHR 0x01, CHR 0xC9, CHR 0x85, CHR ''h'', CHR ''e'', CHR ''l'',
                  CHR ''l'', CHR ''o'', CHR 0x82, CHR 0x03, CHR 0xE8], None))"
proof -
  have e: "encode (request_value (helloRequest 1 ''hello'' 1000))
     = [CHR 0xCB, CHR 0x01, CHR 0xC9, CHR 0x85, CHR ''h'', CHR ''e'', CHR ''l'', CHR ''l'',
        CHR ''o'', CHR 0x82, CHR 0x03, CHR 0xE8]"
    by code_simp
  have enc: "EncodeToBytes example_foreign = (\<lambda>r. Inr (encode (request_value r)))"
    by (simp add: example_foreign_def)
  show ?thesis
    using NewMessage_supported_methods[where F = example_foreign and requestID = 1
        and m = "''goodbye''" and args = "[]" and flag = 1000 and rest = "[]"]
    by (simp only: enc e) simp
qed

subsection \<open>The codec\<close>

lemma be_nat_snoc: "be_nat (bs @ [c]) = be_nat bs * 256 + of_char c"
  by (simp add: be_nat_def)

lemma be_nat_be_bytes: "be_nat (be_bytes n) = n"
proof (induction n rule: be_bytes.induct)
  case (1 n)
  show ?case
  proof (cases "n = 0")
    case True
    then show ?thesis by (simp add: be_bytes.simps be_nat_def)
  next
    case False
    then have "be_bytes n = be_bytes (n div 256) @ [char_of (n mod 256)]"
      by (subst be_bytes.simps) simp
    with 1 False show ?thesis by (simp add: be_nat_snoc)
  qed
qed

lemma length_be_bytes: "n < 256 ^ k \<Longrightarrow> length (be_bytes n) \<le> k"
proof (induction k arbitrary: n)
  case 0
  then show ?case by (simp add: be_bytes.simps)
next
  case (Suc k)
  show ?case
  proof (cases "n = 0")
    case True
    then show ?thesis by (simp add: be_bytes.simps)
  next
    case False
    from Suc.prems have "n div 256 < 256 ^ k"
      by (simp add: less_mult_imp_div_less mult.commute)
    then have "length (be_bytes (n div 256)) \<le> k" by (rule Suc.IH)
    moreover have "be_bytes n = be_bytes (n div 256) @ [char_of (n mod 256)]"
      using False by (subst be_bytes.simps) simp
    ultimately show ?thesis by simp
  qed
qed

lemma length_be_bytes_64: "n < 2 ^ 64 \<Longrightarrow> length (be_bytes n) \<le> 8"
  using length_be_bytes[of n 8] by simp

lemma be_bytes_nonempty: "0 < n \<Longrightarrow> be_bytes n \<noteq> []"
  by (subst be_bytes.simps) simp

lemma split_item_short:
  assumes "length p \<le> 55" and "offset = 128 \<or> offset = 192"
  shows "split_item (char_of (offset + length p) # p @ rest) = Inr (offset = 192, p, rest)"
  using assms by (auto simp: payload_of_def Let_def)

lemma split_item_long:
  assumes "55 < length p" and "length p < 2 ^ 64" and "offset = 128 \<or> offset = 192"
  shows "split_item (char_of (offset + 55 + length (be_bytes (length p))) # be_bytes (length p) @ p @ rest)
           = Inr (offset = 192, p, rest)"
proof -
  let ?l = "be_bytes (length p)"
  let ?k = "length ?l"
  have l8: "?k \<le> 8" using assms(2) by (rule length_be_bytes_64)
  have "0 < length p" using assms(1) by linarith
  then have ne: "?l \<noteq> []" by (rule be_bytes_nonempty)
  then have l1: "1 \<le> ?k" by (cases ?l) auto
  have long: "long_payload_of is_list ?k (?l @ p @ rest) = Inr (is_list, p, rest)" for is_list
    by (simp add: long_payload_of_def payload_of_def be_nat_be_bytes)
  from assms(3) show ?thesis
  proof
    assume o: "offset = 128"
    have b: "(of_char (char_of (183 + ?k)) :: nat) = 183 + ?k"
      using l8 by simp
    show ?thesis using l8 l1 ne o long[of False]
      by (simp add: b Let_def del: of_char_of)
  next
    assume o: "offset = 192"
    have b: "(of_char (char_of (247 + ?k)) :: nat) = 247 + ?k"
      using l8 by simp
    show ?thesis using l8 l1 ne o long[of True]
      by (simp add: b Let_def del: of_char_of)
  qed
qed

lemma split_item_enc_length:
  assumes "length p < 2 ^ 64" and "offset = 128 \<or> offset = 192"
  shows "split_item (enc_length offset (length p) @ p @ rest) = Inr (offset = 192, p, rest)"
proof (cases "length p \<le> 55")
  case True
  then show ?thesis using split_item_short[OF True assms(2)] by (simp add: enc_length_def)
next
  case False
  then have "55 < length p" by simp
  from split_item_long[OF this assms] False show ?thesis by (simp add: enc_length_def)
qed

lemma split_item_enc_string:
  assumes "length bs < 2 ^ 64"
  shows "split_item (enc_string bs @ rest) = Inr (False, bs, rest)"
proof (cases "\<exists>c. bs = [c] \<and> of_char c < (128::nat)")
  case True
  then obtain c where "bs = [c]" "of_char c < (128::nat)" by blast
  then show ?thesis by (simp add: enc_string_def Let_def)
next
  case False
  then have "enc_string bs = enc_length 128 (length bs) @ bs"
    by (auto simp: enc_string_def split: list.splits)
  then show ?thesis using split_item_enc_length[OF assms, of 128 rest] by simp
qed

lemma enc_length_nonempty: "enc_length offset n \<noteq> []"
  by (simp add: enc_length_def)

lemma enc_string_nonempty: "enc_string bs \<noteq> []"
  by (auto simp: enc_string_def enc_length_nonempty split: list.splits)

lemma encode_nonempty: "encode v \<noteq> []"
  by (cases v) (simp_all add: enc_string_nonempty enc_length_nonempty)

lemma decode_items_roundtrip:
  assumes "\<And>v s path rest. v \<in> set vs \<Longrightarrow> wire_sized v \<Longrightarrow> has_shape v s \<Longrightarrow>
             decode_item s path (encode v @ rest) = Inr (v, rest)"
    and "list_all wire_sized vs" and "list_all2 has_shape vs ss"
  shows "decode_items ss path i (concat (map encode vs)) = Inr vs"
  using assms
proof (induction vs arbitrary: ss i)
  case Nil
  then show ?case by simp
next
  case (Cons v vs)
  from Cons.prems(3) obtain s ss' where ss: "ss = s # ss'" "has_shape v s"
    "list_all2 has_shape vs ss'"
    by (auto simp: list_all2_Cons1)
  have item: "decode_item s (path @ [i]) (encode v @ concat (map encode vs))
                = Inr (v, concat (map encode vs))"
    using Cons.prems(1)[of v s] Cons.prems(2) ss(2) by simp
  have rest: "decode_items ss' path (Suc i) (concat (map encode vs)) = Inr vs"
    using Cons.IH[OF _ _ ss(3)] Cons.prems(1,2) by simp
  show ?case using ss(1) item rest encode_nonempty[of v] by simp
qed

lemma decode_item_roundtrip:
  "wire_sized v \<Longrightarrow> has_shape v s \<Longrightarrow> decode_item s path (encode v @ rest) = Inr (v, rest)"
proof (induction v arbitrary: s path rest)
  case (Bytes bs)
  then show ?case by (simp add: split_item_enc_string)
next
  case (UInt w)
  have "unat w < 2 ^ 64" using unsigned_less[of w] by simp
  then have l8: "length (be_bytes (unat w)) \<le> 8" by (rule length_be_bytes_64)
  then have "length (be_bytes (unat w)) < 2 ^ 64" by simp
  then have "split_item (enc_string (be_bytes (unat w)) @ rest) = Inr (False, be_bytes (unat w), rest)"
    by (rule split_item_enc_string)
  with UInt l8 show ?case by (simp add: be_nat_be_bytes)
next
  case (List vs)
  from List.prems(2) obtain ss where s: "s = SList ss" "list_all2 has_shape vs ss"
    by (cases s) auto
  let ?p = "concat (map encode vs)"
  from List.prems(1) have sz: "length ?p < 2 ^ 64" "list_all wire_sized vs" by simp_all
  have sp: "split_item (encode (List vs) @ rest) = Inr (True, ?p, rest)"
    using split_item_enc_length[OF sz(1), of 192 rest] by simp
  have "decode_items ss path 0 ?p = Inr vs"
    using List.IH sz(2) s(2) by (intro decode_items_roundtrip) auto
  with sp s(1) show ?case by simp
qed

lemma decode_item_roundtrip_top:
  "has_shape v s \<Longrightarrow> wire_sized v \<Longrightarrow> decode s (encode v) = Inr v"
  using decode_item_roundtrip[of v s "[]" "[]"] by (simp add: decode_def)

text \<open>C2. For every record shape, decoding the bytes that encoding a record of
  that shape produces yields the record, for records that fit the wire.\<close>

theorem decode_encode:
  assumes "has_shape v s" and "wire_sized v"
  shows "decode s (encode v) = Inr v"
  using decode_item_roundtrip[OF assms(2,1), of "[]" "[]"] by (simp add: decode_def)


theorem decode_encode_witness:
  "has_shape (List [UInt 7, List [Bytes ''hello'', UInt 1000]])
     (SList [SUInt, SList [SBytes, SUInt]]) \<and>
   wire_sized (List [UInt 7, List [Bytes ''hello'', UInt 1000]]) \<and>
   encode (List [UInt 7, List [Bytes ''hello'', UInt 1000]])
     = [CHR 0xCB, CHR 0x07, CHR 0xC9, CHR 0x85, CHR ''h'', CHR ''e'', CHR ''l'', CHR ''l'',
        CHR ''o'', CHR 0x82, CHR 0x03, CHR 0xE8] \<and>
   decode (SList [SUInt, SList [SBytes, SUInt]])
     (encode (List [UInt 7, List [Bytes ''hello'', UInt 1000]]))
     = Inr (List [UInt 7, List [Bytes ''hello'', UInt 1000]])"
proof -
  have h: "has_shape (List [UInt 7, List [Bytes ''hello'', UInt 1000]])
             (SList [SUInt, SList [SBytes, SUInt]])"
    by simp
  have e: "encode (List [UInt 7, List [Bytes ''hello'', UInt 1000]])
     = [CHR 0xCB, CHR 0x07, CHR 0xC9, CHR 0x85, CHR ''h'', CHR ''e'', CHR ''l'', CHR ''l'',
        CHR ''o'', CHR 0x82, CHR 0x03, CHR 0xE8]"
    by code_simp
  have w: "wire_sized (List [UInt 7, List [Bytes ''hello'', UInt 1000]])"
    by (simp add: be_bytes.simps enc_string_def enc_length_def)
  show ?thesis using h e w decode_encode[OF h w] by simp
qed

lemma has_shape_shape_of: "has_shape v (shape_of v)"
  by (induction v) (simp_all add: list_all2_conv_all_nth)

lemma request_roundtrip:
  "wire_sized (request_value r) \<Longrightarrow>
     decode (shape_of (request_value r)) (encode (request_value r)) = Inr (request_value r)"
  using has_shape_shape_of by (rule decode_item_roundtrip_top)

lemma decode_rejects_other_shape:
  "decode (SList [SUInt, SList [SBytes]])
     (encode (List [UInt 7, List [Bytes ''hello'', UInt 1000]]))
     = Inl (DecodeError TooManyElements [1])"
  "decode (SList [SUInt, SBytes])
     (encode (List [UInt 7, List [Bytes ''hello'', UInt 1000]]))
     = Inl (DecodeError KindMismatch [1])"
  "decode (SList [SUInt, SList [SBytes, SUInt]])
     (butlast (encode (List [UInt 7, List [Bytes ''hello'', UInt 1000]])))
     = Inl (DecodeError Truncated [])"
  by (simp_all add: decode_def be_bytes.simps enc_string_def enc_length_def Let_def
      payload_of_def long_payload_of_def)

end
